theory Spec2Isabelle
  imports Complex_Main "HOL-Library.List_Lexorder" "HOL-Library.Char_ord"
begin

section \<open>Python values, errors and dates\<close>

text \<open>
  The cube engine of \<^verbatim>\<open>cablab/cube.py\<close> is embedded function by function.
  A raised exception is the \<open>Inl\<close> branch of a sum; \<open>ValueError\<close> carries the fixed
  part of its message. \<open>ProviderError\<close> stands for whatever exception a source provider
  (external code) raises, \<open>RuntimeError\<close> for the persistence backend refusing an
  operation on a dataset that is not open.

  Numbers that are Python floats in the source (degrees, weights, encoded times) are exact
  rationals here: the model agrees with the program wherever the float operations are
  exact, as they are for the dyadic resolutions and grid-line coordinates of the examples.
\<close>

datatype error =
    IOError
  | ValueError string
  | TypeError
  | KeyError
  | AttributeError
  | ZeroDivisionError
  | OverflowError
  | IndexError
  | RuntimeError
  | ProviderError string

text \<open>
  A \<^verbatim>\<open>datetime\<close> is its number of microseconds since 0001-01-01 00:00:00 (the
  resolution and the origin of Python's type); a \<^verbatim>\<open>timedelta\<close> is a number of
  microseconds. The calendar functions follow \<^verbatim>\<open>datetime.py\<close>:
  \<^verbatim>\<open>_days_before_year\<close>, \<^verbatim>\<open>_ord2ymd\<close>, and the range checks of the
  constructors (years 1 to 9999, at most 999999999 days in a \<^verbatim>\<open>timedelta\<close>).
\<close>

type_synonym datetime = int
type_synonym timedelta = int

definition usec_per_day :: int where
  "usec_per_day = 86400000000"

definition days_before_year :: "int \<Rightarrow> int" where
  "days_before_year y = (y - 1) * 365 + (y - 1) div 4 - (y - 1) div 100 + (y - 1) div 400"

definition datetime_max :: datetime where
  "datetime_max = days_before_year 10000 * usec_per_day - 1"

text \<open>\<^verbatim>\<open>datetime(year, 1, 1)\<close>\<close>

definition datetime_jan1 :: "int \<Rightarrow> error + datetime" where
  "datetime_jan1 y =
     (if 1 \<le> y \<and> y \<le> 9999 then Inr (days_before_year y * usec_per_day)
      else Inl (ValueError ''year is out of range''))"

text \<open>\<^verbatim>\<open>dt.year\<close>\<close>

definition year_of :: "datetime \<Rightarrow> int" where
  "year_of t =
     (let n = t div usec_per_day;
          n400 = n div 146097; r400 = n mod 146097;
          n100 = r400 div 36524; r100 = r400 mod 36524;
          n4 = r100 div 1461; r4 = r100 mod 1461;
          n1 = r4 div 365;
          y = n400 * 400 + 1 + n100 * 100 + n4 * 4 + n1
      in if n1 = 4 \<or> n100 = 4 then y - 1 else y)"

text \<open>\<^verbatim>\<open>timedelta(days=d)\<close>\<close>

definition timedelta_days :: "int \<Rightarrow> error + timedelta" where
  "timedelta_days d =
     (if \<bar>d\<bar> \<le> 999999999 then Inr (d * usec_per_day) else Inl OverflowError)"

text \<open>\<^verbatim>\<open>dt + delta\<close>\<close>

definition datetime_add :: "datetime \<Rightarrow> timedelta \<Rightarrow> error + datetime" where
  "datetime_add t d =
     (if 0 \<le> t + d \<and> t + d \<le> datetime_max then Inr (t + d) else Inl OverflowError)"

text \<open>
  Python's \<^verbatim>\<open>round\<close> (ties go to the even integer) followed by \<^verbatim>\<open>int\<close>, and
  Python's \<^verbatim>\<open>%\<close> (the result has the sign of the divisor).
\<close>

definition py_round :: "rat \<Rightarrow> int" where
  "py_round x =
     (let f = \<lfloor>x\<rfloor>; d = x - of_int f
      in if d < 1 / 2 then f
         else if 1 / 2 < d then f + 1
         else if even f then f else f + 1)"

definition py_mod :: "rat \<Rightarrow> rat \<Rightarrow> rat" where
  "py_mod x m = x - m * of_int \<lfloor>x / m\<rfloor>"

section \<open>CubeConfig\<close>

record cube_config =
  spatial_res :: rat
  grid_x0 :: int
  grid_y0 :: int
  grid_width :: int
  grid_height :: int
  temporal_res :: int
  calendar :: string
  ref_time :: datetime
  start_time :: "datetime option"
  end_time :: "datetime option"
  variables :: "string list option"
  file_format :: string
  compression :: bool

definition northing :: "cube_config \<Rightarrow> rat" where
  "northing c = 90 - of_int (grid_y0 c) * spatial_res c"

definition easting :: "cube_config \<Rightarrow> rat" where
  "easting c = - 180 + of_int (grid_x0 c) * spatial_res c"




text \<open>The default arguments of \<^verbatim>\<open>CubeConfig.__init__\<close>.\<close>

definition default_config :: cube_config where
  "default_config =
     \<lparr> spatial_res = 1 / 4, grid_x0 = 0, grid_y0 = 0, grid_width = 1440, grid_height = 720,
       temporal_res = 8, calendar = ''gregorian'',
       ref_time = days_before_year 2001 * usec_per_day,
       start_time = Some (days_before_year 2001 * usec_per_day),
       end_time = Some (days_before_year 2011 * usec_per_day),
       variables = None, file_format = ''NETCDF4_CLASSIC'', compression = False \<rparr>"

section \<open>The persistence backend and the provider contract\<close>

text \<open>
  The NetCDF backend is modelled as far as the engine uses it. A file holds its format,
  its dimensions, its variables (with data type, dimensions, compression flag, fill value
  and attributes), the static \<^verbatim>\<open>lon\<close> and \<^verbatim>\<open>lat\<close> arrays and one row per index
  of the unlimited \<^verbatim>\<open>time\<close> dimension; a row holds what \<^verbatim>\<open>start_time\<close>,
  \<^verbatim>\<open>end_time\<close> and the data variable store at that index (\<open>None\<close> where nothing
  was written). An image is a value of the type parameter \<open>'img\<close>.
\<close>

datatype attr = AStr string | ANum rat

record nc_var =
  v_dtype :: attr
  v_dims :: "string list"
  v_zlib :: bool
  v_fill :: "attr option"
  v_attrs :: "(string \<times> attr) list"

type_synonym 'img row = "rat option \<times> rat option \<times> 'img option"

record 'img partition =
  nc_format :: string
  nc_dimensions :: "(string \<times> int option) list"
  nc_variables :: "(string \<times> nc_var) list"
  lon_data :: "rat list"
  lat_data :: "rat list"
  rows :: "'img row list"

text \<open>
  An open dataset is an entry of the handle table: \<^verbatim>\<open>netCDF4.Dataset\<close> on one file, or
  \<^verbatim>\<open>netCDF4.MFDataset\<close> on the files of one variable. Closing a dataset removes its
  entry. The call log records every call the engine makes to the provider.
\<close>

datatype dataset = Dataset string | MFDataset "string list"

datatype call =
    CallPrepare
  | CallGetTemporalCoverage
  | CallGetSpatialCoverage
  | CallGetVariableDescriptors
  | CallComputeVariableImages datetime datetime
  | CallClose

record ('p, 'img) world =
  files :: "string \<rightharpoonup> 'img partition"
  handles :: "(nat \<times> dataset) list"
  calls :: "call list"
  prov :: 'p
  nc_attr_ok :: "string \<Rightarrow> attr \<Rightarrow> bool"

fun fresh_handle :: "(nat \<times> dataset) list \<Rightarrow> nat" where
  "fresh_handle [] = 0"
| "fresh_handle ((h, _) # hs) = max (Suc h) (fresh_handle hs)"

definition nc_open :: "dataset \<Rightarrow> ('p, 'img) world \<Rightarrow> nat \<times> ('p, 'img) world" where
  "nc_open ds w =
     (let h = fresh_handle (handles w) in (h, w\<lparr>handles := handles w @ [(h, ds)]\<rparr>))"

definition nc_close :: "nat \<Rightarrow> ('p, 'img) world \<Rightarrow> ('p, 'img) world" where
  "nc_close h w = w\<lparr>handles := filter (\<lambda>e. fst e \<noteq> h) (handles w)\<rparr>"

definition empty_partition :: "string \<Rightarrow> 'img partition" where
  "empty_partition fmt =
     \<lparr> nc_format = fmt, nc_dimensions = [], nc_variables = [], lon_data = [], lat_data = [],
       rows = [] \<rparr>"

text \<open>\<^verbatim>\<open>netCDF4.Dataset(file, 'w', format=fmt)\<close>: the file is created, or emptied.\<close>

definition nc_create :: "string \<Rightarrow> string \<Rightarrow> ('p, 'img) world \<Rightarrow> nat \<times> ('p, 'img) world" where
  "nc_create file fmt w = nc_open (Dataset file) (w\<lparr>files := (files w)(file \<mapsto> empty_partition fmt)\<rparr>)"

text \<open>\<^verbatim>\<open>netCDF4.Dataset(file, 'a')\<close>: the file is left as it is.\<close>

definition nc_append :: "string \<Rightarrow> ('p, 'img) world \<Rightarrow> nat \<times> ('p, 'img) world" where
  "nc_append file w = nc_open (Dataset file) w"

text \<open>An operation \<open>f\<close> on the file behind the open dataset \<open>h\<close>.\<close>

definition nc_write ::
  "nat \<Rightarrow> ('img partition \<Rightarrow> error + 'img partition) \<Rightarrow> ('p, 'img) world
     \<Rightarrow> error option \<times> ('p, 'img) world" where
  "nc_write h f w =
     (case map_of (handles w) h of
        Some (Dataset file) \<Rightarrow>
          (case files w file of
             Some p \<Rightarrow>
               (case f p of
                  Inl e \<Rightarrow> (Some e, w)
                | Inr p' \<Rightarrow> (None, w\<lparr>files := (files w)(file \<mapsto> p')\<rparr>))
           | None \<Rightarrow> (Some RuntimeError, w))
      | _ \<Rightarrow> (Some RuntimeError, w))"

text \<open>
  \<^verbatim>\<open>CubeSourceProvider\<close>: the abstract methods, each a function of the provider's own
  state \<open>'p\<close> that raises or returns its result with the new state.
  A variable descriptor maps attribute names to values; \<^verbatim>\<open>compute_variable_images\<close>
  returns \<^verbatim>\<open>None\<close> or a dictionary from variable names to images (or \<^verbatim>\<open>None\<close>).
  Dictionaries are association lists in insertion order.
\<close>

type_synonym descriptor = "(string \<times> attr) list"
type_synonym 'img images = "(string \<times> 'img option) list"

record ('p, 'img) provider =
  p_prepare :: "'p \<Rightarrow> error + 'p"
  p_get_temporal_coverage :: "'p \<Rightarrow> error + (datetime \<times> datetime) \<times> 'p"
  p_get_spatial_coverage :: "'p \<Rightarrow> error + (int \<times> int \<times> int \<times> int) \<times> 'p"
  p_get_variable_descriptors :: "'p \<Rightarrow> error + (string \<times> descriptor) list \<times> 'p"
  p_compute_variable_images :: "datetime \<Rightarrow> datetime \<Rightarrow> 'p \<Rightarrow> error + 'img images option \<times> 'p"
  p_close :: "'p \<Rightarrow> error + 'p"

text \<open>A call of a provider method: logged, then run on the provider's state.\<close>

definition call_provider ::
  "call \<Rightarrow> ('p \<Rightarrow> error + 'a \<times> 'p) \<Rightarrow> ('p, 'img) world \<Rightarrow> (error + 'a) \<times> ('p, 'img) world" where
  "call_provider c m w =
     (let w1 = w\<lparr>calls := calls w @ [c]\<rparr>
      in case m (prov w1) of
           Inl e \<Rightarrow> (Inl e, w1)
         | Inr (r, s) \<Rightarrow> (Inr r, w1\<lparr>prov := s\<rparr>))"

definition unit_method :: "('p \<Rightarrow> error + 'p) \<Rightarrow> 'p \<Rightarrow> error + unit \<times> 'p" where
  "unit_method m s = (case m s of Inl e \<Rightarrow> Inl e | Inr s' \<Rightarrow> Inr ((), s'))"

section \<open>Temporal weights and BaseCubeSourceProvider\<close>

text \<open>
  Modelled from the spec: \<^verbatim>\<open>cablab.util.temporal_weight\<close> is called by the source but
  its module is not among the source files. The spec gives it as
  \<open>overlap(a, b, c, d) / (b - a)\<close> with \<open>overlap(a, b, c, d) = max(0, min(b, d) - max(a, c))\<close>;
  the division of Python raises on a range of length zero.
\<close>

definition overlap :: "datetime \<Rightarrow> datetime \<Rightarrow> datetime \<Rightarrow> datetime \<Rightarrow> timedelta" where
  "overlap a b c d = max 0 (min b d - max a c)"

definition temporal_weight :: "datetime \<Rightarrow> datetime \<Rightarrow> datetime \<Rightarrow> datetime \<Rightarrow> error + rat" where
  "temporal_weight a b c d =
     (if b - a = 0 then Inl ZeroDivisionError
      else Inr (of_int (overlap a b c d) / of_int (b - a)))"

text \<open>
  \<^verbatim>\<open>BaseCubeSourceProvider.compute_variable_images\<close>, over the list returned by
  \<^verbatim>\<open>get_source_time_ranges\<close> and the subclass's
  \<^verbatim>\<open>compute_variable_images_from_sources\<close>. The loop runs over the indices in order;
  the final log line reads \<^verbatim>\<open>result.keys()\<close>, which raises on \<^verbatim>\<open>None\<close>.
\<close>

fun index_to_weight_loop ::
  "datetime \<Rightarrow> datetime \<Rightarrow> nat \<Rightarrow> (datetime \<times> datetime) list \<Rightarrow> (nat \<times> rat) list
     \<Rightarrow> error + (nat \<times> rat) list" where
  "index_to_weight_loop period_start period_end i [] index_to_weight = Inr index_to_weight"
| "index_to_weight_loop period_start period_end i ((source_start_time, source_end_time) # rest)
     index_to_weight =
     (case temporal_weight source_start_time source_end_time period_start period_end of
        Inl e \<Rightarrow> Inl e
      | Inr weight \<Rightarrow>
          index_to_weight_loop period_start period_end (Suc i) rest
            (if weight > 0 then index_to_weight @ [(i, weight)] else index_to_weight))"

definition compute_variable_images ::
  "(datetime \<times> datetime) list \<Rightarrow> ((nat \<times> rat) list \<Rightarrow> error + 'img images option)
     \<Rightarrow> datetime \<Rightarrow> datetime \<Rightarrow> error + 'img images option" where
  "compute_variable_images source_time_ranges compute_variable_images_from_sources
     period_start period_end =
     (if length source_time_ranges = 0 then Inr None
      else
        case index_to_weight_loop period_start period_end 0 source_time_ranges [] of
          Inl e \<Rightarrow> Inl e
        | Inr index_to_weight \<Rightarrow>
            if index_to_weight = [] then Inr None
            else
              case compute_variable_images_from_sources index_to_weight of
                Inl e \<Rightarrow> Inl e
              | Inr None \<Rightarrow> Inl AttributeError
              | Inr (Some result) \<Rightarrow> Inr (Some result))"

section \<open>Cube and CubeData: the objects\<close>

text \<open>
  \<^verbatim>\<open>CubeData\<close> keeps a reference to its cube and reads only the configuration through
  it: the model stores the configuration. \<open>cd_datasets\<close> and \<open>cd_variables\<close> are the lists
  \<^verbatim>\<open>_datasets\<close> and \<^verbatim>\<open>_variables\<close>; an opened dataset is its handle, and the
  variable taken from it is named by the same handle.
\<close>

record cube_data =
  cd_config :: cube_config
  dataset_files :: "string list list"
  var_index_to_var_name :: "(int \<times> string) list"
  var_name_to_var_index :: "(string \<times> int) list"
  cd_datasets :: "nat option list"
  cd_variables :: "nat option list"

record cube =
  base_dir :: string
  config :: cube_config
  cube_closed :: bool
  data :: "cube_data option"

section \<open>Cube: the writer\<close>

text \<open>
  The name of a partition's file: \<^verbatim>\<open>'%04d_%s.nc' % (year, var_name)\<close> in the folder
  \<^verbatim>\<open>base_dir/data/var_name\<close>. The year of a \<^verbatim>\<open>datetime\<close> has at most four
  digits; \<^verbatim>\<open>os.path.join\<close> is joining with a slash. Creating the folder is not
  modelled: files are found by their full path.
\<close>

definition fmt_04d :: "int \<Rightarrow> string" where
  "fmt_04d y =
     map (\<lambda>d. char_of (48 + d))
       [nat y div 1000 mod 10, nat y div 100 mod 10, nat y div 10 mod 10, nat y mod 10]"

definition partition_filename :: "int \<Rightarrow> string \<Rightarrow> string" where
  "partition_filename year var_name = fmt_04d year @ ''_'' @ var_name @ ''.nc''"

definition partition_file :: "string \<Rightarrow> int \<Rightarrow> string \<Rightarrow> string" where
  "partition_file base year var_name =
     base @ ''/data/'' @ var_name @ ''/'' @ partition_filename year var_name"

text \<open>
  \<^verbatim>\<open>CubeConfig.time_units\<close> is the text \<^verbatim>\<open>'days since Y-M-D h:m'\<close> of the reference
  time; it is kept as the instant that text denotes (the reference time without its
  seconds). \<^verbatim>\<open>netCDF4.date2num\<close> of a time in these units is its distance to that
  instant in days.
\<close>

definition time_units :: "cube_config \<Rightarrow> datetime" where
  "time_units c = ref_time c - ref_time c mod 60000000"

definition date2num :: "datetime \<Rightarrow> datetime \<Rightarrow> rat" where
  "date2num t units = of_int (t - units) / of_int usec_per_day"

text \<open>
  \<^verbatim>\<open>Cube._init_variable_dataset\<close>, in the two groups of backend calls that the
  provider calls separate: dimensions and coordinate variables first, the data variable
  and its attributes after the descriptors were fetched. The units of the time variables
  are stored as the number \<^verbatim>\<open>date2num\<close> counts from. An attribute the backend refuses
  (\<open>nc_attr_ok\<close> is false) is skipped.
\<close>

definition init_coordinates ::
  "cube_config \<Rightarrow> int \<times> int \<times> int \<times> int \<Rightarrow> 'img partition \<Rightarrow> error + 'img partition" where
  "init_coordinates cfg coverage p =
     (case coverage of (image_x0, image_y0, image_width, image_height) \<Rightarrow>
        let var_time = \<lparr> v_dtype = AStr ''f8'', v_dims = [''time''], v_zlib = False, v_fill = None,
                         v_attrs = [(''units'', ANum (of_int (time_units cfg))),
                                    (''calendar'', AStr (calendar cfg))] \<rparr>;
            var_longitude = \<lparr> v_dtype = AStr ''f4'', v_dims = [''lon''], v_zlib = False,
                              v_fill = None, v_attrs = [(''units'', AStr ''degrees_east'')] \<rparr>;
            var_latitude = \<lparr> v_dtype = AStr ''f4'', v_dims = [''lat''], v_zlib = False,
                             v_fill = None, v_attrs = [(''units'', AStr ''degrees_north'')] \<rparr>;
            spatial_res = spatial_res cfg;
            lon0 = easting cfg + of_int image_x0 * spatial_res;
            lat0 = northing cfg + of_int image_y0 * spatial_res
        in Inr (p\<lparr> nc_dimensions := nc_dimensions p @
                      [(''time'', None), (''lat'', Some image_height), (''lon'', Some image_width)],
                   nc_variables := nc_variables p @
                      [(''start_time'', var_time), (''end_time'', var_time),
                       (''lon'', var_longitude), (''lat'', var_latitude)],
                   lon_data := map (\<lambda>i. lon0 + of_nat i * spatial_res) [0..<nat image_width],
                   lat_data := map (\<lambda>i. lat0 - of_nat i * spatial_res) [0..<nat image_height] \<rparr>))"

definition init_data_variable ::
  "(string \<Rightarrow> attr \<Rightarrow> bool) \<Rightarrow> cube_config \<Rightarrow> string \<Rightarrow> (string \<times> descriptor) list
     \<Rightarrow> 'img partition \<Rightarrow> error + 'img partition" where
  "init_data_variable attr_ok cfg variable_name variable_descriptors p =
     (case map_of variable_descriptors variable_name of
        None \<Rightarrow> Inl KeyError
      | Some variable_attributes \<Rightarrow>
          (case map_of variable_attributes ''data_type'' of
             None \<Rightarrow> Inl KeyError
           | Some variable_data_type \<Rightarrow>
               (case map_of variable_attributes ''fill_value'' of
                  None \<Rightarrow> Inl KeyError
                | Some variable_fill_value \<Rightarrow>
                    let scale_factor = (case map_of variable_attributes ''scale_factor'' of
                                          Some v \<Rightarrow> v | None \<Rightarrow> ANum 1);
                        add_offset = (case map_of variable_attributes ''add_offset'' of
                                        Some v \<Rightarrow> v | None \<Rightarrow> ANum 0);
                        remaining =
                          filter (\<lambda>a. fst a \<notin> {''data_type'', ''fill_value'', ''scale_factor'',
                                                 ''add_offset''} \<and> attr_ok (fst a) (snd a))
                            variable_attributes;
                        var_variable = \<lparr> v_dtype = variable_data_type,
                                         v_dims = [''time'', ''lat'', ''lon''],
                                         v_zlib = compression cfg,
                                         v_fill = Some variable_fill_value,
                                         v_attrs = [(''scale_factor'', scale_factor),
                                                    (''add_offset'', add_offset)] @ remaining \<rparr>
                    in Inr (p\<lparr> nc_variables := nc_variables p @ [(variable_name, var_variable)] \<rparr>))))"

definition init_variable_dataset ::
  "cube_config \<Rightarrow> ('p, 'img) provider \<Rightarrow> nat \<Rightarrow> string \<Rightarrow> ('p, 'img) world
     \<Rightarrow> error option \<times> ('p, 'img) world" where
  "init_variable_dataset cfg provider dataset variable_name w =
     (case call_provider CallGetSpatialCoverage (p_get_spatial_coverage provider) w of
        (Inl e, w1) \<Rightarrow> (Some e, w1)
      | (Inr coverage, w1) \<Rightarrow>
          (case nc_write dataset (init_coordinates cfg coverage) w1 of
             (Some e, w2) \<Rightarrow> (Some e, w2)
           | (None, w2) \<Rightarrow>
               (case call_provider CallGetVariableDescriptors
                       (p_get_variable_descriptors provider) w2 of
                  (Inl e, w3) \<Rightarrow> (Some e, w3)
                | (Inr variable_descriptors, w3) \<Rightarrow>
                    nc_write dataset
                      (init_data_variable (nc_attr_ok w3) cfg variable_name variable_descriptors)
                      w3)))"

text \<open>
  Assignment at index \<open>i\<close> of a variable on the unlimited dimension: the dimension grows
  to hold the index (new rows are unwritten), then the cell is set.
\<close>

definition grow_rows :: "nat \<Rightarrow> 'img row list \<Rightarrow> 'img row list" where
  "grow_rows i rs = rs @ replicate (Suc i - length rs) (None, None, None)"

definition set_start_time :: "nat \<Rightarrow> rat \<Rightarrow> 'img row list \<Rightarrow> 'img row list" where
  "set_start_time i v rs = (let rs' = grow_rows i rs in rs'[i := (Some v, snd (rs' ! i))])"

definition set_end_time :: "nat \<Rightarrow> rat \<Rightarrow> 'img row list \<Rightarrow> 'img row list" where
  "set_end_time i v rs =
     (let rs' = grow_rows i rs in rs'[i := (fst (rs' ! i), Some v, snd (snd (rs' ! i)))])"

definition set_image :: "nat \<Rightarrow> 'img \<Rightarrow> 'img row list \<Rightarrow> 'img row list" where
  "set_image i v rs =
     (let rs' = grow_rows i rs in rs'[i := (fst (rs' ! i), fst (snd (rs' ! i)), Some v)])"

text \<open>The last ten lines of \<^verbatim>\<open>Cube._write_image\<close>, on the dataset's file.\<close>

definition append_record ::
  "cube_config \<Rightarrow> datetime \<times> datetime \<Rightarrow> string \<Rightarrow> 'img \<Rightarrow> 'img partition
     \<Rightarrow> error + 'img partition" where
  "append_record cfg target_time_range var_name img p =
     (case target_time_range of (target_start_time, target_end_time) \<Rightarrow>
        if map_of (nc_variables p) ''start_time'' = None then Inl KeyError
        else if map_of (nc_variables p) ''end_time'' = None then Inl KeyError
        else if map_of (nc_variables p) var_name = None then Inl KeyError
        else
          let i = length (rows p)
          in Inr (p\<lparr> rows :=
                       set_image i img
                         (set_end_time i (date2num target_end_time (time_units cfg))
                            (set_start_time i (date2num target_start_time (time_units cfg))
                               (rows p))) \<rparr>))"

text \<open>
  \<^verbatim>\<open>Cube._write_image\<close>. \<open>datasets\<close> is the dictionary of the update session, from
  file names to the datasets opened so far.
\<close>

definition write_image ::
  "cube \<Rightarrow> ('p, 'img) provider \<Rightarrow> datetime \<times> datetime \<Rightarrow> string \<Rightarrow> 'img
     \<Rightarrow> (string \<times> nat) list \<times> ('p, 'img) world
     \<Rightarrow> error option \<times> (string \<times> nat) list \<times> ('p, 'img) world" where
  "write_image self provider target_time_range var_name img st =
     (case st of (datasets, w) \<Rightarrow>
        let filename = partition_filename (year_of (fst target_time_range)) var_name;
            file = partition_file (base_dir self) (year_of (fst target_time_range)) var_name
        in case map_of datasets filename of
             Some dataset \<Rightarrow>
               (case nc_write dataset
                       (append_record (config self) target_time_range var_name img) w of
                  (r, w') \<Rightarrow> (r, datasets, w'))
           | None \<Rightarrow>
               if files w file \<noteq> None then
                 (case nc_append file w of
                    (dataset, w1) \<Rightarrow>
                      (case nc_write dataset
                              (append_record (config self) target_time_range var_name img) w1 of
                         (r, w') \<Rightarrow> (r, datasets @ [(filename, dataset)], w')))
               else
                 (case nc_create file (file_format (config self)) w of
                    (dataset, w1) \<Rightarrow>
                      (case init_variable_dataset (config self) provider dataset var_name w1 of
                         (Some e, w2) \<Rightarrow> (Some e, datasets, w2)
                       | (None, w2) \<Rightarrow>
                           (case nc_write dataset
                                   (append_record (config self) target_time_range var_name img)
                                   w2 of
                              (r, w') \<Rightarrow> (r, datasets @ [(filename, dataset)], w')))))"

text \<open>\<^verbatim>\<open>Cube._write_images\<close>: the loop over the dictionary's entries.\<close>

fun write_images ::
  "cube \<Rightarrow> ('p, 'img) provider \<Rightarrow> datetime \<times> datetime \<Rightarrow> 'img images
     \<Rightarrow> (string \<times> nat) list \<times> ('p, 'img) world
     \<Rightarrow> error option \<times> (string \<times> nat) list \<times> ('p, 'img) world" where
  "write_images self provider target_time_range [] st = (None, st)"
| "write_images self provider target_time_range ((var_name, None) # rest) st =
     write_images self provider target_time_range rest st"
| "write_images self provider target_time_range ((var_name, Some img) # rest) st =
     (case write_image self provider target_time_range var_name img st of
        (Some e, st') \<Rightarrow> (Some e, st')
      | (None, st') \<Rightarrow> write_images self provider target_time_range rest st')"

text \<open>
  The two loops of \<^verbatim>\<open>Cube.update\<close>, over the years and over the periods of a year,
  with the loop body as a parameter: \<open>body time_1 time_2\<close> is what lines 446 to 451 do
  with the period.
\<close>

fun for_periods ::
  "(datetime \<Rightarrow> datetime \<Rightarrow> 's \<Rightarrow> error option \<times> 's) \<Rightarrow> timedelta \<Rightarrow> datetime \<Rightarrow> nat
     \<Rightarrow> datetime \<Rightarrow> 's \<Rightarrow> error option \<times> 's" where
  "for_periods body d_time time_max 0 time_1 s = (None, s)"
| "for_periods body d_time time_max (Suc k) time_1 s =
     (case datetime_add time_1 d_time of
        Inl e \<Rightarrow> (Some e, s)
      | Inr t \<Rightarrow>
          let time_2 = (if t > time_max then time_max else t)
          in case body time_1 time_2 s of
               (Some e, s') \<Rightarrow> (Some e, s')
             | (None, s') \<Rightarrow> for_periods body d_time time_max k time_2 s')"

fun for_years ::
  "(datetime \<Rightarrow> datetime \<Rightarrow> 's \<Rightarrow> error option \<times> 's) \<Rightarrow> int \<Rightarrow> nat \<Rightarrow> int list
     \<Rightarrow> 's \<Rightarrow> error option \<times> 's" where
  "for_years body cube_temporal_res num_periods_per_year [] s = (None, s)"
| "for_years body cube_temporal_res num_periods_per_year (target_year # years) s =
     (case datetime_jan1 target_year of
        Inl e \<Rightarrow> (Some e, s)
      | Inr time_min \<Rightarrow>
          (case datetime_jan1 (target_year + 1) of
             Inl e \<Rightarrow> (Some e, s)
           | Inr time_max \<Rightarrow>
               (case timedelta_days cube_temporal_res of
                  Inl e \<Rightarrow> (Some e, s)
                | Inr d_time \<Rightarrow>
                    (case for_periods body d_time time_max num_periods_per_year time_min s of
                       (Some e, s') \<Rightarrow> (Some e, s')
                     | (None, s') \<Rightarrow>
                         for_years body cube_temporal_res num_periods_per_year years s'))))"

text \<open>\<^verbatim>\<open>math.ceil(365.0 / cube_temporal_res)\<close> as the length of a \<^verbatim>\<open>range\<close>.\<close>

definition num_periods_per_year :: "int \<Rightarrow> nat" where
  "num_periods_per_year cube_temporal_res = nat \<lceil>365 / (of_int cube_temporal_res :: rat)\<rceil>"

text \<open>The body of the period loop in \<^verbatim>\<open>Cube.update\<close>.\<close>

definition update_period ::
  "cube \<Rightarrow> ('p, 'img) provider \<Rightarrow> datetime \<Rightarrow> datetime \<Rightarrow> datetime \<Rightarrow> datetime
     \<Rightarrow> (string \<times> nat) list \<times> ('p, 'img) world
     \<Rightarrow> error option \<times> (string \<times> nat) list \<times> ('p, 'img) world" where
  "update_period self provider target_start_time target_end_time time_1 time_2 st =
     (case temporal_weight time_1 time_2 target_start_time target_end_time of
        Inl e \<Rightarrow> (Some e, st)
      | Inr weight \<Rightarrow>
          if weight > 0 then
            (case call_provider (CallComputeVariableImages time_1 time_2)
                    (p_compute_variable_images provider time_1 time_2) (snd st) of
               (Inl e, w1) \<Rightarrow> (Some e, fst st, w1)
             | (Inr None, w1) \<Rightarrow> (None, fst st, w1)
             | (Inr (Some var_name_to_image), w1) \<Rightarrow>
                 if var_name_to_image \<noteq> []
                 then write_images self provider (time_1, time_2) var_name_to_image (fst st, w1)
                 else (None, fst st, w1))
          else (None, st))"

text \<open>The closing loop over the session's dictionary.\<close>

fun close_session :: "(string \<times> nat) list \<Rightarrow> ('p, 'img) world \<Rightarrow> ('p, 'img) world" where
  "close_session [] w = w"
| "close_session ((key, dataset) # rest) w = close_session rest (nc_close dataset w)"

text \<open>\<^verbatim>\<open>Cube.update\<close>\<close>

definition update ::
  "cube \<Rightarrow> ('p, 'img) provider \<Rightarrow> ('p, 'img) world \<Rightarrow> error option \<times> ('p, 'img) world" where
  "update self provider w =
     (if cube_closed self then (Some IOError, w)
      else
        case call_provider CallPrepare (unit_method (p_prepare provider)) w of
          (Inl e, w1) \<Rightarrow> (Some e, w1)
        | (Inr _, w1) \<Rightarrow>
            (case call_provider CallGetTemporalCoverage (p_get_temporal_coverage provider) w1 of
               (Inl e, w2) \<Rightarrow> (Some e, w2)
             | (Inr coverage, w2) \<Rightarrow>
                 let target_start_time =
                       (case start_time (config self) of
                          Some t \<Rightarrow> if t > fst coverage then t else fst coverage
                        | None \<Rightarrow> fst coverage);
                     target_end_time =
                       (case end_time (config self) of
                          Some t \<Rightarrow> if t < snd coverage then t else snd coverage
                        | None \<Rightarrow> snd coverage);
                     target_year_1 = year_of target_start_time;
                     target_year_2 = year_of target_end_time;
                     cube_temporal_res = temporal_res (config self)
                 in if cube_temporal_res = 0 then (Some ZeroDivisionError, w2)
                    else
                      case for_years
                             (update_period self provider target_start_time target_end_time)
                             cube_temporal_res (num_periods_per_year cube_temporal_res)
                             [target_year_1..target_year_2] ([], w2) of
                        (Some e, st) \<Rightarrow> (Some e, snd st)
                      | (None, st) \<Rightarrow>
                          (case call_provider CallClose (unit_method (p_close provider))
                                  (close_session (fst st) (snd st)) of
                             (Inl e, w3) \<Rightarrow> (Some e, w3)
                           | (Inr _, w3) \<Rightarrow> (None, w3))))"

section \<open>CubeData: the reader\<close>

text \<open>
  The arguments of \<^verbatim>\<open>CubeData.get\<close>: a variable reference is a string, an integer, a
  list or tuple of references, or another object (\<open>PNone\<close>); a time, latitude or
  longitude argument is a scalar or a sequence, unpacked into two values.
\<close>

datatype pyval = PStr string | PInt int | PSeq "pyval list" | PNone

datatype 'a range_arg = Scalar 'a | Seq "'a list"

fun unpack2 :: "'a range_arg \<Rightarrow> error + 'a \<times> 'a" where
  "unpack2 (Scalar v) = Inr (v, v)"
| "unpack2 (Seq [a, b]) = Inr (a, b)"
| "unpack2 (Seq _) = Inl (ValueError ''wrong number of values to unpack'')"

text \<open>What a variable is indexed with: one index, or \<^verbatim>\<open>slice(start, stop)\<close>.\<close>

datatype sel = Index int | Slice int int

definition index_or_slice :: "int \<Rightarrow> int \<Rightarrow> sel" where
  "index_or_slice i1 i2 = (if i1 < i2 then Slice i1 (i2 + 1) else Index i1)"


text \<open>
  \<^verbatim>\<open>CubeData.__init__\<close>, over the listing of the data directory: each entry with the
  listing of its own directory, or \<open>None\<close> when it is not a directory.
\<close>

definition endswith :: "string \<Rightarrow> string \<Rightarrow> bool" where
  "endswith s suffix =
     (length suffix \<le> length s \<and> drop (length s - length suffix) s = suffix)"

fun dict_set :: "'k \<Rightarrow> 'v \<Rightarrow> ('k \<times> 'v) list \<Rightarrow> ('k \<times> 'v) list" where
  "dict_set k v [] = [(k, v)]"
| "dict_set k v (e # es) = (if fst e = k then (k, v) # es else e # dict_set k v es)"

fun scan_data_dir ::
  "string \<Rightarrow> int \<Rightarrow> (string \<times> string list option) list \<Rightarrow> cube_data \<Rightarrow> cube_data" where
  "scan_data_dir data_dir var_index [] self = self"
| "scan_data_dir data_dir var_index ((data_dir_entry, None) # rest) self =
     scan_data_dir data_dir var_index rest self"
| "scan_data_dir data_dir var_index ((data_dir_entry, Some entries) # rest) self =
     (let var_dir = data_dir @ ''/'' @ data_dir_entry;
          var_name = data_dir_entry;
          var_dir_entries = filter (\<lambda>e. endswith e ''.nc'') entries;
          var_dir_entries = sort var_dir_entries;
          var_dir_entries = map (\<lambda>e. var_dir @ ''/'' @ e) var_dir_entries
      in scan_data_dir data_dir (var_index + 1) rest
           (self\<lparr> var_index_to_var_name := dict_set var_index var_name (var_index_to_var_name self),
                   var_name_to_var_index := dict_set var_name var_index (var_name_to_var_index self),
                   dataset_files := dataset_files self @ [var_dir_entries] \<rparr>))"

definition CubeData :: "cube \<Rightarrow> (string \<times> string list option) list \<Rightarrow> cube_data" where
  "CubeData cube data_dir_entries =
     (let self = scan_data_dir (base_dir cube @ ''/data'') 0 data_dir_entries
                   \<lparr> cd_config = config cube, dataset_files = [], var_index_to_var_name = [],
                     var_name_to_var_index = [], cd_datasets = [], cd_variables = [] \<rparr>
      in self\<lparr> cd_datasets := replicate (length (dataset_files self)) None,
               cd_variables := replicate (length (dataset_files self)) None \<rparr>)"

text \<open>The property \<^verbatim>\<open>Cube.data\<close>.\<close>

definition Cube_data :: "cube \<Rightarrow> (string \<times> string list option) list \<Rightarrow> cube_data \<times> cube" where
  "Cube_data self data_dir_entries =
     (case data self of
        Some d \<Rightarrow> (d, self)
      | None \<Rightarrow> (let d = CubeData self data_dir_entries in (d, self\<lparr>data := Some d\<rparr>)))"

text \<open>
  Indexing a Python list: the position of index \<open>i\<close>, or \<open>None\<close> where Python raises
  \<^verbatim>\<open>IndexError\<close>.
\<close>

definition list_position :: "'a list \<Rightarrow> int \<Rightarrow> nat option" where
  "list_position xs i =
     (if 0 \<le> i \<and> i < int (length xs) then Some (nat i)
      else if - int (length xs) \<le> i \<and> i < 0 then Some (nat (int (length xs) + i))
      else None)"

text \<open>\<^verbatim>\<open>CubeData._open_dataset\<close>\<close>

definition open_dataset ::
  "cube_data \<Rightarrow> int \<Rightarrow> ('p, 'img) world \<Rightarrow> (error + nat) \<times> cube_data \<times> ('p, 'img) world" where
  "open_dataset self var_index w =
     (case list_position (dataset_files self) var_index of
        None \<Rightarrow> (Inl IndexError, self, w)
      | Some k \<Rightarrow>
          (case map_of (var_index_to_var_name self) var_index of
             None \<Rightarrow> (Inl KeyError, self, w)
           | Some var_name \<Rightarrow>
               (case nc_open (MFDataset (dataset_files self ! k)) w of
                  (dataset, w1) \<Rightarrow>
                    (case list_position (cd_datasets self) var_index of
                       None \<Rightarrow> (Inl IndexError, self, w1)
                     | Some kd \<Rightarrow>
                         let self1 = self\<lparr>cd_datasets := (cd_datasets self)[kd := Some dataset]\<rparr>
                         in case list_position (cd_variables self1) var_index of
                              None \<Rightarrow> (Inl IndexError, self1, w1)
                            | Some kv \<Rightarrow>
                                (Inr dataset,
                                 self1\<lparr>cd_variables := (cd_variables self1)[kv := Some dataset]\<rparr>,
                                 w1)))))"

text \<open>\<^verbatim>\<open>CubeData._get_or_open_variable\<close>\<close>

definition get_or_open_variable ::
  "cube_data \<Rightarrow> int \<Rightarrow> ('p, 'img) world \<Rightarrow> (error + nat) \<times> cube_data \<times> ('p, 'img) world" where
  "get_or_open_variable self var_index w =
     (case list_position (cd_variables self) var_index of
        None \<Rightarrow> (Inl IndexError, self, w)
      | Some k \<Rightarrow>
          (case cd_variables self ! k of
             Some variable \<Rightarrow> (Inr variable, self, w)
           | None \<Rightarrow> open_dataset self var_index w))"

text \<open>
  \<^verbatim>\<open>CubeData._get_var_indices\<close>. A dictionary lookup that raises \<^verbatim>\<open>KeyError\<close> or
  \<^verbatim>\<open>TypeError\<close> is \<open>None\<close>: the source catches both. Iterating a string yields its
  characters as strings; iterating an integer raises \<^verbatim>\<open>TypeError\<close>, outside of every
  \<^verbatim>\<open>try\<close>.
\<close>

definition lookup_name :: "cube_data \<Rightarrow> pyval \<Rightarrow> int option" where
  "lookup_name self v =
     (case v of PStr name \<Rightarrow> map_of (var_name_to_var_index self) name | _ \<Rightarrow> None)"

definition lookup_index :: "cube_data \<Rightarrow> pyval \<Rightarrow> int option" where
  "lookup_index self v =
     (case v of
        PInt i \<Rightarrow> (case map_of (var_index_to_var_name self) i of Some _ \<Rightarrow> Some i | None \<Rightarrow> None)
      | _ \<Rightarrow> None)"

definition py_iter :: "pyval \<Rightarrow> error + pyval list" where
  "py_iter v =
     (case v of
        PStr s \<Rightarrow> Inr (map (\<lambda>c. PStr [c]) s)
      | PSeq vs \<Rightarrow> Inr vs
      | _ \<Rightarrow> Inl TypeError)"

fun var_indices_loop :: "cube_data \<Rightarrow> pyval list \<Rightarrow> int list \<Rightarrow> error + int list" where
  "var_indices_loop self [] var_indexes = Inr var_indexes"
| "var_indices_loop self (v # vs) var_indexes =
     (case lookup_name self v of
        Some var_index \<Rightarrow> var_indices_loop self vs (var_indexes @ [var_index])
      | None \<Rightarrow>
          (case lookup_index self v of
             Some var_index \<Rightarrow> var_indices_loop self vs (var_indexes @ [var_index])
           | None \<Rightarrow> Inl (ValueError ''illegal variable argument'')))"

definition get_var_indices :: "cube_data \<Rightarrow> pyval \<Rightarrow> error + int list" where
  "get_var_indices self variable =
     (case lookup_name self variable of
        Some var_index \<Rightarrow> Inr [var_index]
      | None \<Rightarrow>
          (case lookup_index self variable of
             Some var_index \<Rightarrow> Inr [var_index]
           | None \<Rightarrow>
               (case py_iter variable of
                  Inl e \<Rightarrow> Inl e
                | Inr vs \<Rightarrow> var_indices_loop self vs [])))"

text \<open>\<^verbatim>\<open>CubeData._get_time_range\<close>, \<^verbatim>\<open>_get_lat_range\<close> and \<^verbatim>\<open>_get_lon_range\<close>\<close>

definition get_time_range :: "datetime range_arg \<Rightarrow> error + datetime \<times> datetime" where
  "get_time_range time =
     (case unpack2 time of
        Inl e \<Rightarrow> Inl e
      | Inr (time_1, time_2) \<Rightarrow>
          if time_1 > time_2 then Inl (ValueError ''invalid time argument'')
          else Inr (time_1, time_2))"

definition get_lat_range :: "rat range_arg \<Rightarrow> error + rat \<times> rat" where
  "get_lat_range latitude =
     (case unpack2 latitude of
        Inl e \<Rightarrow> Inl e
      | Inr (lat_1, lat_2) \<Rightarrow>
          if lat_1 < - 90 \<or> lat_1 > 90 \<or> lat_2 < - 90 \<or> lat_2 > 90 \<or> lat_1 > lat_2
          then Inl (ValueError ''invalid latitude argument'')
          else Inr (lat_1, lat_2))"

text \<open>
  The two adjustments \<^verbatim>\<open>_get_lon_range\<close> makes to each endpoint
  (\<^verbatim>\<open>if lon < -180: lon %= 180\<close>, then \<^verbatim>\<open>if lon > 180: lon %= -180\<close>).
\<close>

definition adjust_lon :: "rat \<Rightarrow> rat" where
  "adjust_lon lon =
     (let lon = (if lon < - 180 then py_mod lon 180 else lon)
      in if lon > 180 then py_mod lon (- 180) else lon)"

definition get_lon_range :: "rat range_arg \<Rightarrow> error + rat \<times> rat" where
  "get_lon_range longitude =
     (case unpack2 longitude of
        Inl e \<Rightarrow> Inl e
      | Inr (lon_1, lon_2) \<Rightarrow>
          let lon_1 = adjust_lon lon_1;
              lon_2 = adjust_lon lon_2;
              lon_2 = (if lon_1 > lon_2 then lon_2 + 360 else lon_2)
          in Inr (lon_1, lon_2))"

text \<open>
  \<^verbatim>\<open>CubeData.get\<close>. The array read from a variable is kept as the variable and the
  three selections it is indexed with (time, row, column).
\<close>

fun get_loop ::
  "sel \<times> sel \<times> sel \<Rightarrow> int list \<Rightarrow> (nat \<times> sel \<times> sel \<times> sel) list \<Rightarrow> cube_data
     \<Rightarrow> ('p, 'img) world
     \<Rightarrow> (error + (nat \<times> sel \<times> sel \<times> sel) list) \<times> cube_data \<times> ('p, 'img) world" where
  "get_loop sels [] result self w = (Inr result, self, w)"
| "get_loop sels (var_index # var_indexes) result self w =
     (case get_or_open_variable self var_index w of
        (Inl e, self', w') \<Rightarrow> (Inl e, self', w')
      | (Inr variable, self', w') \<Rightarrow>
          get_loop sels var_indexes (result @ [(variable, sels)]) self' w')"

definition dateline_error :: error where
  "dateline_error = ValueError ''illegal longitude: dateline intersection not yet implemented''"

definition get ::
  "cube_data \<Rightarrow> pyval \<Rightarrow> datetime range_arg \<Rightarrow> rat range_arg \<Rightarrow> rat range_arg
     \<Rightarrow> ('p, 'img) world
     \<Rightarrow> (error + (nat \<times> sel \<times> sel \<times> sel) list) \<times> cube_data \<times> ('p, 'img) world" where
  "get self variable time latitude longitude w =
     (case get_var_indices self variable of
        Inl e \<Rightarrow> (Inl e, self, w)
      | Inr var_indexes \<Rightarrow>
     (case get_time_range time of
        Inl e \<Rightarrow> (Inl e, self, w)
      | Inr (time_1, time_2) \<Rightarrow>
     (case get_lat_range latitude of
        Inl e \<Rightarrow> (Inl e, self, w)
      | Inr (lat_1, lat_2) \<Rightarrow>
     (case get_lon_range longitude of
        Inl e \<Rightarrow> (Inl e, self, w)
      | Inr (lon_1, lon_2) \<Rightarrow>
     (case timedelta_days (temporal_res (cd_config self)) of
        Inl e \<Rightarrow> (Inl e, self, w)
      | Inr period \<Rightarrow>
          if period = 0 then (Inl ZeroDivisionError, self, w)
          else if spatial_res (cd_config self) = 0 then (Inl ZeroDivisionError, self, w)
          else
            let config = cd_config self;
                time_index_1 = \<lfloor>(of_int (time_1 - ref_time config) :: rat) / of_int period\<rfloor>;
                time_index_2 = \<lfloor>(of_int (time_2 - ref_time config) :: rat) / of_int period\<rfloor>;
                grid_y1 = py_round ((90 - lat_2) / spatial_res config) - grid_y0 config;
                grid_y2 = py_round ((90 - lat_1) / spatial_res config) - grid_y0 config;
                grid_x1 = py_round ((180 + lon_1) / spatial_res config) - grid_x0 config;
                grid_x2 = py_round ((180 + lon_2) / spatial_res config) - grid_x0 config;
                grid_y2 = (if grid_y2 > grid_y1 \<and>
                              90 - of_int (grid_y2 + grid_y0 config) * spatial_res config = lat_1
                           then grid_y2 - 1 else grid_y2);
                grid_x2 = (if grid_x2 > grid_x1 \<and>
                              - 180 + of_int (grid_x2 + grid_x0 config) * spatial_res config = lon_2
                           then grid_x2 - 1 else grid_x2);
                global_grid_width = py_round (360 / spatial_res config);
                dateline_intersection = (grid_x2 \<ge> global_grid_width)
            in if dateline_intersection then (Inl dateline_error, self, w)
               else
                 get_loop (index_or_slice time_index_1 time_index_2,
                           index_or_slice grid_y1 grid_y2,
                           index_or_slice grid_x1 grid_x2)
                   var_indexes [] self w)))))"

text \<open>
  \<^verbatim>\<open>CubeData._close_datasets\<close>: the loop over \<^verbatim>\<open>range(len(self._datasets))\<close>.
  Calling \<^verbatim>\<open>close\<close> on \<^verbatim>\<open>None\<close> raises \<^verbatim>\<open>AttributeError\<close>.
\<close>

fun close_datasets_loop ::
  "nat list \<Rightarrow> cube_data \<Rightarrow> ('p, 'img) world \<Rightarrow> error option \<times> cube_data \<times> ('p, 'img) world" where
  "close_datasets_loop [] self w = (None, self, w)"
| "close_datasets_loop (i # rest) self w =
     (case cd_datasets self ! i of
        None \<Rightarrow> (Some AttributeError, self, w)
      | Some dataset \<Rightarrow>
          let w1 = nc_close dataset w;
              self1 = self\<lparr>cd_datasets := (cd_datasets self)[i := None]\<rparr>
          in if i < length (cd_variables self1)
             then close_datasets_loop rest
                    (self1\<lparr>cd_variables := (cd_variables self1)[i := None]\<rparr>) w1
             else (Some IndexError, self1, w1))"

definition close_datasets ::
  "cube_data \<Rightarrow> ('p, 'img) world \<Rightarrow> error option \<times> cube_data \<times> ('p, 'img) world" where
  "close_datasets self w = close_datasets_loop [0..<length (cd_datasets self)] self w"

text \<open>\<^verbatim>\<open>CubeData.close\<close> and \<^verbatim>\<open>Cube.close\<close>\<close>

definition CubeData_close ::
  "cube_data \<Rightarrow> ('p, 'img) world \<Rightarrow> error option \<times> cube_data \<times> ('p, 'img) world" where
  "CubeData_close self w = close_datasets self w"

definition Cube_close ::
  "cube \<Rightarrow> ('p, 'img) world \<Rightarrow> error option \<times> cube \<times> ('p, 'img) world" where
  "Cube_close self w =
     (case data self of
        Some d \<Rightarrow>
          (case CubeData_close d w of
             (Some e, d', w') \<Rightarrow> (Some e, self\<lparr>data := Some d'\<rparr>, w')
           | (None, d', w') \<Rightarrow> (None, self\<lparr>data := None, cube_closed := True\<rparr>, w'))
      | None \<Rightarrow> (None, self\<lparr>cube_closed := True\<rparr>, w))"

section \<open>The scenario of the test suite\<close>

text \<open>
  The cube of \<^verbatim>\<open>test_cube.py\<close>: the default configuration in the directory
  \<^verbatim>\<open>testcube\<close>, holding the variables \<^verbatim>\<open>FAPAR\<close> and \<^verbatim>\<open>LAI\<close> with one
  partition each; and a world with no file, no open dataset and no call made.
\<close>

definition test_cube :: cube where
  "test_cube = \<lparr> base_dir = ''testcube'', config = default_config, cube_closed = False,
                 data = None \<rparr>"

definition test_listing :: "(string \<times> string list option) list" where
  "test_listing = [(''FAPAR'', Some [''2001_FAPAR.nc'']), (''LAI'', Some [''2001_LAI.nc''])]"

definition initial_world :: "'p \<Rightarrow> ('p, 'img) world" where
  "initial_world p =
     \<lparr> files = Map.empty, handles = [], calls = [], prov = p, nc_attr_ok = (\<lambda>n v. True) \<rparr>"

text \<open>
  \<^verbatim>\<open>CubeSourceProviderMock\<close> of \<^verbatim>\<open>test_cube.py\<close>, covering the time from \<open>start\<close> to
  \<open>end\<close>. Its state is the number of images computed so far; an image filled with one
  value is that value.
\<close>

definition mock_provider ::
  "cube_config \<Rightarrow> datetime \<Rightarrow> datetime \<Rightarrow> (nat, rat) provider" where
  "mock_provider cube_config start end =
     \<lparr> p_prepare = (\<lambda>s. Inr s),
       p_get_temporal_coverage = (\<lambda>s. Inr ((start, end), s)),
       p_get_spatial_coverage =
         (\<lambda>s. Inr ((0, 0, grid_width cube_config, grid_height cube_config), s)),
       p_get_variable_descriptors =
         (\<lambda>s. Inr ([(''LAI'', [(''data_type'', AStr ''float32''), (''fill_value'', ANum 0),
                                (''scale_factor'', ANum 1), (''add_offset'', ANum 0)]),
                      (''FAPAR'', [(''data_type'', AStr ''float32''),
                                  (''fill_value'', ANum (- 9999)), (''units'', AStr ''1''),
                                  (''long_name'', AStr ''FAPAR'')])], s)),
       p_compute_variable_images =
         (\<lambda>period_start period_end s.
            Inr (Some [(''LAI'', Some (1 / 10 + of_nat (Suc s) / 100)),
                       (''FAPAR'', Some (6 / 10 + of_nat (Suc s) * 5 / 1000))], Suc s)),
       p_close = (\<lambda>s. Inr s) \<rparr>"


text \<open>
  A cube of four by two cells of 90 degrees with periods of eight days, bounded to
  January 2001.
\<close>

definition coarse_cube :: cube where
  "coarse_cube =
     \<lparr> base_dir = ''testcube'',
       config = default_config\<lparr> spatial_res := 90, grid_width := 4, grid_height := 2,
                                end_time := Some ((days_before_year 2001 + 31) * usec_per_day) \<rparr>,
       cube_closed = False, data = None \<rparr>"


text \<open>
  A cube with periods of five days and no time bounds, for a provider that covers the
  last day of the leap year 2004.
\<close>

definition pentad_cube :: cube where
  "pentad_cube =
     coarse_cube\<lparr> config := (config coarse_cube)\<lparr> temporal_res := 5, start_time := None,
                                                    end_time := None \<rparr> \<rparr>"

definition dec31_2004 :: datetime where
  "dec31_2004 = (days_before_year 2005 - 1) * usec_per_day"

definition jan1_2005 :: datetime where
  "jan1_2005 = days_before_year 2005 * usec_per_day"

text \<open>Midnight of a day of January or February 2001, as a \<^verbatim>\<open>datetime\<close>.\<close>

definition jan_2001 :: "int \<Rightarrow> datetime" where
  "jan_2001 day = (days_before_year 2001 + day - 1) * usec_per_day"

definition feb_2001 :: "int \<Rightarrow> datetime" where
  "feb_2001 day = (days_before_year 2001 + 31 + day - 1) * usec_per_day"

section \<open>Observations on a run\<close>

text \<open>
  The periods the two loops of \<^verbatim>\<open>Cube.update\<close> step through: the loops run with a body
  that only records the period it is given.
\<close>

definition record_period ::
  "datetime \<Rightarrow> datetime \<Rightarrow> (datetime \<times> datetime) list
     \<Rightarrow> error option \<times> (datetime \<times> datetime) list" where
  "record_period time_1 time_2 periods = (None, periods @ [(time_1, time_2)])"

definition year_periods :: "int \<Rightarrow> int \<Rightarrow> error option \<times> (datetime \<times> datetime) list" where
  "year_periods cube_temporal_res target_year =
     for_years record_period cube_temporal_res (num_periods_per_year cube_temporal_res)
       [target_year] []"

text \<open>The period arguments of the logged calls of \<^verbatim>\<open>compute_variable_images\<close>, in order.\<close>

fun compute_calls :: "call list \<Rightarrow> (datetime \<times> datetime) list" where
  "compute_calls [] = []"
| "compute_calls (CallComputeVariableImages period_start period_end # cs) =
     (period_start, period_end) # compute_calls cs"
| "compute_calls (c # cs) = compute_calls cs"

text \<open>Whether the period \<open>p\<close> has a positive weight against the target window.\<close>

definition positive_weight :: "datetime \<Rightarrow> datetime \<Rightarrow> datetime \<times> datetime \<Rightarrow> bool" where
  "positive_weight target_start_time target_end_time p =
     (case temporal_weight (fst p) (snd p) target_start_time target_end_time of
        Inl e \<Rightarrow> False
      | Inr weight \<Rightarrow> weight > 0)"

text \<open>
  A row that holds a start time, an end time and an image; and a file that has the schema
  of another and its rows, followed by complete rows only.
\<close>

definition complete_row :: "'img row \<Rightarrow> bool" where
  "complete_row r = (fst r \<noteq> None \<and> fst (snd r) \<noteq> None \<and> snd (snd r) \<noteq> None)"

definition partition_extends :: "'img partition \<Rightarrow> 'img partition \<Rightarrow> bool" where
  "partition_extends p p' =
     (nc_format p' = nc_format p \<and> nc_dimensions p' = nc_dimensions p \<and>
      nc_variables p' = nc_variables p \<and> lon_data p' = lon_data p \<and>
      lat_data p' = lat_data p \<and>
      length (rows p) \<le> length (rows p') \<and>
      take (length (rows p)) (rows p') = rows p \<and>
      list_all complete_row (drop (length (rows p)) (rows p')))"

text \<open>A file system that keeps every file of another, each extended.\<close>

definition fs_extends ::
  "(string \<rightharpoonup> 'img partition) \<Rightarrow> (string \<rightharpoonup> 'img partition) \<Rightarrow> bool" where
  "fs_extends fs fs' =
     (\<forall>file p. fs file = Some p \<longrightarrow> (\<exists>p'. fs' file = Some p' \<and> partition_extends p p'))"

text \<open>
  The handle table of a session that started from the table \<open>hs0\<close>: the datasets of the
  session's dictionary, in order, after the entries of \<open>hs0\<close>.
\<close>

definition session_inv ::
  "(nat \<times> dataset) list \<Rightarrow> (string \<times> nat) list \<times> ('p, 'img) world \<Rightarrow> bool" where
  "session_inv hs0 st =
     (\<exists>new. handles (snd st) = hs0 @ new \<and> map fst new = map snd (fst st)
        \<and> fst ` set new \<inter> fst ` set hs0 = {})"

section \<open>Terms of the specification\<close>



section \<open>Construction of a configuration\<close>




section \<open>Queries: index ranges\<close>
















section \<open>Queries: variable references\<close>

lemma var_indices_loop_unresolvable:
  "v \<in> set vs \<Longrightarrow> lookup_name self v = None \<Longrightarrow> lookup_index self v = None
     \<Longrightarrow> var_indices_loop self vs acc = Inl (ValueError ''illegal variable argument'')"
  by (induction vs arbitrary: acc) (auto split: option.splits)

lemma get_var_indices_in_sequence:
  "v \<in> set vs \<Longrightarrow> lookup_name self v = None \<Longrightarrow> lookup_index self v = None
     \<Longrightarrow> get_var_indices self (PSeq vs) = Inl (ValueError ''illegal variable argument'')"
  by (simp add: get_var_indices_def lookup_name_def lookup_index_def py_iter_def
      var_indices_loop_unresolvable)

text \<open>
  Claim C9 fails on a scalar index. On the cube of the test suite, with the variables 0 and
  1, the reference \<open>7\<close> is neither a name nor an index; the fallback that iterates the
  argument raises \<^verbatim>\<open>TypeError\<close> on an integer, and \<^verbatim>\<open>get\<close> fails with that error,
  not with a value error. The empty string, which names no variable, is iterated to no
  entry at all and \<^verbatim>\<open>get\<close> returns an empty result. The same index inside a sequence
  does raise the value error.
\<close>

theorem get_var_indices_scalar_index_TypeError:
  "lookup_name (CubeData test_cube test_listing) (PInt 7) = None
   \<and> lookup_index (CubeData test_cube test_listing) (PInt 7) = None
   \<and> get_var_indices (CubeData test_cube test_listing) (PInt 7) = Inl TypeError
   \<and> fst (get (CubeData test_cube test_listing) (PInt 7) (Scalar (jan_2001 20)) (Scalar 0)
             (Scalar 0) (initial_world () :: (unit, unit) world))
       = Inl TypeError
   \<and> fst (get (CubeData test_cube test_listing) (PStr '''') (Scalar (jan_2001 20)) (Scalar 0)
             (Scalar 0) (initial_world () :: (unit, unit) world))
       = Inr []
   \<and> get_var_indices (CubeData test_cube test_listing) (PSeq [PInt 0, PInt 7])
       = Inl (ValueError ''illegal variable argument'')"
  by code_simp

section \<open>Closing a reader\<close>

lemma close_loop_stops:
  assumes "a \<le> k" and "k < b" and "b \<le> length (cd_datasets self)"
    and "length (cd_variables self) = length (cd_datasets self)"
    and "cd_datasets self ! k = None"
    and "\<forall>j. a \<le> j \<longrightarrow> j < k \<longrightarrow> cd_datasets self ! j \<noteq> None"
  shows "\<exists>self' w'. close_datasets_loop [a..<b] self w = (Some AttributeError, self', w')
           \<and> length (cd_datasets self') = length (cd_datasets self)
           \<and> (\<forall>j. j < a \<or> k \<le> j \<longrightarrow> cd_datasets self' ! j = cd_datasets self ! j)
           \<and> (\<forall>j. a \<le> j \<longrightarrow> j < k \<longrightarrow> cd_datasets self' ! j = None)
           \<and> handles w' =
               filter (\<lambda>e. Some (fst e) \<notin> set (take (k - a) (drop a (cd_datasets self))))
                 (handles w)"
  using assms
proof (induction "k - a" arbitrary: a self w)
  case 0
  then have ak: "a = k" by simp
  have up: "[a..<b] = a # [Suc a..<b]" using 0 by (simp add: upt_conv_Cons)
  show ?case unfolding up using 0 ak by simp
next
  case (Suc d)
  then have ak: "a < k" by simp
  have up: "[a..<b] = a # [Suc a..<b]" using Suc.prems by (simp add: upt_conv_Cons)
  from Suc.prems ak obtain h where h: "cd_datasets self ! a = Some h" by auto
  let ?self1 = "self\<lparr>cd_datasets := (cd_datasets self)[a := None]\<rparr>"
  let ?self2 = "?self1\<lparr>cd_variables := (cd_variables ?self1)[a := None]\<rparr>"
  let ?w1 = "nc_close h w"
  have alen: "a < length (cd_variables ?self1)" using Suc.prems ak by simp
  have step: "close_datasets_loop [a..<b] self w = close_datasets_loop [Suc a..<b] ?self2 ?w1"
    unfolding up using h alen by (simp add: Let_def)
  have d: "d = k - Suc a" using Suc.hyps(2) by simp
  have p1: "Suc a \<le> k" using ak by simp
  have p3: "b \<le> length (cd_datasets ?self2)" using Suc.prems by simp
  have p4: "length (cd_variables ?self2) = length (cd_datasets ?self2)" using Suc.prems by simp
  have p5: "cd_datasets ?self2 ! k = None" using Suc.prems ak by simp
  have p6: "\<forall>j. Suc a \<le> j \<longrightarrow> j < k \<longrightarrow> cd_datasets ?self2 ! j \<noteq> None"
    using Suc.prems by simp
  from Suc.hyps(1) [OF d p1 Suc.prems(2) p3 p4 p5 p6, of ?w1]
  obtain self' w' where
    r: "close_datasets_loop [Suc a..<b] ?self2 ?w1 = (Some AttributeError, self', w')"
    and l: "length (cd_datasets self') = length (cd_datasets ?self2)"
    and keep: "\<forall>j. j < Suc a \<or> k \<le> j \<longrightarrow> cd_datasets self' ! j = cd_datasets ?self2 ! j"
    and cleared: "\<forall>j. Suc a \<le> j \<longrightarrow> j < k \<longrightarrow> cd_datasets self' ! j = None"
    and hs: "handles w' =
               filter (\<lambda>e. Some (fst e) \<notin> set (take (k - Suc a) (drop (Suc a) (cd_datasets ?self2))))
                 (handles ?w1)"
    by blast
  have a_lt: "a < length (cd_datasets self)" using Suc.prems ak by simp
  have dropa: "drop a (cd_datasets self) = Some h # drop (Suc a) (cd_datasets self)"
    using a_lt h by (simp add: Cons_nth_drop_Suc [symmetric])
  have takea: "take (k - a) (drop a (cd_datasets self))
                 = Some h # take (k - Suc a) (drop (Suc a) (cd_datasets self))"
    using ak by (simp add: dropa take_Cons')
  have drop2: "drop (Suc a) (cd_datasets ?self2) = drop (Suc a) (cd_datasets self)"
    by simp
  have c1: "length (cd_datasets self') = length (cd_datasets self)" using l by simp
  have c2: "\<forall>j. j < a \<or> k \<le> j \<longrightarrow> cd_datasets self' ! j = cd_datasets self ! j"
    using keep ak by auto
  have c3: "\<forall>j. a \<le> j \<longrightarrow> j < k \<longrightarrow> cd_datasets self' ! j = None"
  proof (intro allI impI)
    fix j assume "a \<le> j" "j < k"
    show "cd_datasets self' ! j = None"
    proof (cases "j = a")
      case True
      with keep a_lt show ?thesis by simp
    next
      case False
      with \<open>a \<le> j\<close> \<open>j < k\<close> cleared show ?thesis by simp
    qed
  qed
  have c4: "handles w' =
               filter (\<lambda>e. Some (fst e) \<notin> set (take (k - a) (drop a (cd_datasets self))))
                 (handles w)"
    unfolding hs drop2 takea by (auto simp add: nc_close_def intro: filter_cong)
  from step r c1 c2 c3 c4 show ?case by simp
qed


lemma open_dataset_slots:
  "open_dataset self i w = (r, self', w') \<Longrightarrow> Some j \<noteq> list_position (cd_datasets self) i
     \<Longrightarrow> cd_datasets self' ! j = cd_datasets self ! j"
  by (auto simp add: open_dataset_def nc_open_def Let_def split: option.splits prod.splits)

lemma get_or_open_variable_slots:
  "get_or_open_variable self i w = (r, self', w') \<Longrightarrow> Some j \<noteq> list_position (cd_datasets self) i
     \<Longrightarrow> cd_datasets self' ! j = cd_datasets self ! j"
  by (auto simp add: get_or_open_variable_def split: option.splits dest: open_dataset_slots)

text \<open>
  Claim C10. \<^verbatim>\<open>CubeData.__init__\<close> leaves every slot of the dataset list at \<open>None\<close>,
  and \<^verbatim>\<open>_get_or_open_variable\<close> changes no slot but the one of the variable it is asked
  for. If slot \<open>k\<close> is the first unopened one, \<^verbatim>\<open>CubeData.close\<close> raises
  \<^verbatim>\<open>AttributeError\<close>, and so does \<^verbatim>\<open>Cube.close\<close>, which then neither drops the
  reader nor marks the cube closed; the slots from \<open>k\<close> on are as before, and a dataset
  held by a later slot (and by no earlier one) that was open is still open afterwards.
\<close>

theorem close_raises_on_unopened_slot:
  assumes "k < length (cd_datasets self)"
    and "cd_datasets self ! k = None"
    and "\<forall>j<k. cd_datasets self ! j \<noteq> None"
    and "length (cd_variables self) = length (cd_datasets self)"
    and "data c = Some self"
  shows "cd_datasets (CubeData cube data_dir_entries)
           = replicate (length (dataset_files (CubeData cube data_dir_entries))) None
       \<and> (\<forall>i r self1 w1 j. get_or_open_variable self i w = (r, self1, w1)
             \<longrightarrow> Some j \<noteq> list_position (cd_datasets self) i
             \<longrightarrow> cd_datasets self1 ! j = cd_datasets self ! j)
       \<and> (\<exists>self' w'. CubeData_close self w = (Some AttributeError, self', w')
             \<and> Cube_close c w = (Some AttributeError, c\<lparr>data := Some self'\<rparr>, w')
             \<and> (\<forall>j\<ge>k. cd_datasets self' ! j = cd_datasets self ! j)
             \<and> (\<forall>j h d. k < j \<longrightarrow> cd_datasets self ! j = Some h \<longrightarrow> (h, d) \<in> set (handles w)
                    \<longrightarrow> Some h \<notin> set (take k (cd_datasets self)) \<longrightarrow> (h, d) \<in> set (handles w')))"
proof -
  have 1: "cd_datasets (CubeData cube data_dir_entries)
           = replicate (length (dataset_files (CubeData cube data_dir_entries))) None"
    by (simp add: CubeData_def Let_def)
  have 2: "\<forall>i r self1 w1 j. get_or_open_variable self i w = (r, self1, w1)
             \<longrightarrow> Some j \<noteq> list_position (cd_datasets self) i
             \<longrightarrow> cd_datasets self1 ! j = cd_datasets self ! j"
    using get_or_open_variable_slots by blast
  have pre: "\<forall>j. 0 \<le> j \<longrightarrow> j < k \<longrightarrow> cd_datasets self ! j \<noteq> None" using assms(3) by simp
  from close_loop_stops [OF _ assms(1) _ assms(4) assms(2) pre, of w]
  obtain self' w' where
    r: "close_datasets_loop [0..<length (cd_datasets self)] self w = (Some AttributeError, self', w')"
    and keep: "\<forall>j. j < 0 \<or> k \<le> j \<longrightarrow> cd_datasets self' ! j = cd_datasets self ! j"
    and hs: "handles w' =
               filter (\<lambda>e. Some (fst e) \<notin> set (take (k - 0) (drop 0 (cd_datasets self))))
                 (handles w)"
    by auto
  have a: "CubeData_close self w = (Some AttributeError, self', w')"
    using r by (simp add: CubeData_close_def close_datasets_def)
  have b: "Cube_close c w = (Some AttributeError, c\<lparr>data := Some self'\<rparr>, w')"
    using a assms(5) by (simp add: Cube_close_def)
  have c: "\<forall>j\<ge>k. cd_datasets self' ! j = cd_datasets self ! j" using keep by simp
  have d: "\<forall>j h d. k < j \<longrightarrow> cd_datasets self ! j = Some h \<longrightarrow> (h, d) \<in> set (handles w)
                    \<longrightarrow> Some h \<notin> set (take k (cd_datasets self)) \<longrightarrow> (h, d) \<in> set (handles w')"
    unfolding hs by simp
  from 1 2 a b c d show ?thesis by blast
qed

theorem close_raises_on_unopened_slot_witness:
  "fst (CubeData_close
          (fst (snd (get_or_open_variable (CubeData test_cube test_listing) 1
                       (initial_world () :: (unit, unit) world))))
          (snd (snd (get_or_open_variable (CubeData test_cube test_listing) 1
                       (initial_world () :: (unit, unit) world)))))
     = Some AttributeError
   \<and> (0, MFDataset [''testcube/data/LAI/2001_LAI.nc''])
       \<in> set (handles (snd (snd (CubeData_close
          (fst (snd (get_or_open_variable (CubeData test_cube test_listing) 1
                       (initial_world () :: (unit, unit) world))))
          (snd (snd (get_or_open_variable (CubeData test_cube test_listing) 1
                       (initial_world () :: (unit, unit) world))))))))"
proof -
  define self where "self = fst (snd (get_or_open_variable (CubeData test_cube test_listing) 1
              (initial_world () :: (unit, unit) world)))"
  define w where "w = snd (snd (get_or_open_variable (CubeData test_cube test_listing) 1
              (initial_world () :: (unit, unit) world)))"
  define c where "c = test_cube\<lparr>data := Some self\<rparr>"
  have h1: "0 < length (cd_datasets self)" unfolding self_def by code_simp
  have h2: "cd_datasets self ! 0 = None" unfolding self_def by code_simp
  have h3: "\<forall>j<0. cd_datasets self ! j \<noteq> None" by simp
  have h4: "length (cd_variables self) = length (cd_datasets self)" unfolding self_def by code_simp
  have h5: "data c = Some self" by (simp add: c_def)
  have s1: "cd_datasets self ! 1 = Some 0" unfolding self_def by code_simp
  have s2: "(0, MFDataset [''testcube/data/LAI/2001_LAI.nc'']) \<in> set (handles w)"
    unfolding w_def by code_simp
  note t = close_raises_on_unopened_slot [OF h1 h2 h3 h4 h5, where w = w and cube = test_cube
      and data_dir_entries = test_listing]
  from t [THEN conjunct2, THEN conjunct2]
  obtain self' w' where
    a: "CubeData_close self w = (Some AttributeError, self', w')"
    and b: "\<forall>j h d. 0 < j \<longrightarrow> cd_datasets self ! j = Some h \<longrightarrow> (h, d) \<in> set (handles w)
                    \<longrightarrow> Some h \<notin> set (take 0 (cd_datasets self)) \<longrightarrow> (h, d) \<in> set (handles w')"
    by blast
  have "(0, MFDataset [''testcube/data/LAI/2001_LAI.nc'']) \<in> set (handles w')"
    using b [rule_format, of 1 0 "MFDataset [''testcube/data/LAI/2001_LAI.nc'']"] s1 s2 by simp
  with a have "fst (CubeData_close self w) = Some AttributeError
     \<and> (0, MFDataset [''testcube/data/LAI/2001_LAI.nc''])
        \<in> set (handles (snd (snd (CubeData_close self w))))"
    by simp
  then show ?thesis unfolding self_def w_def .
qed

section \<open>The update session: backend and provider calls\<close>

lemma call_provider_world:
  "call_provider c m w = (r, w') \<Longrightarrow>
     files w' = files w \<and> handles w' = handles w \<and> calls w' = calls w @ [c]
     \<and> nc_attr_ok w' = nc_attr_ok w"
  by (auto simp add: call_provider_def Let_def split: sum.splits prod.splits)

lemma nc_write_world:
  "nc_write h f w = (r, w') \<Longrightarrow>
     handles w' = handles w \<and> calls w' = calls w \<and> nc_attr_ok w' = nc_attr_ok w"
  by (auto simp add: nc_write_def split: option.splits dataset.splits sum.splits)

lemma nc_write_files:
  "nc_write h f w = (r, w') \<Longrightarrow>
     files w' = files w \<or>
     (\<exists>file p p'. map_of (handles w) h = Some (Dataset file) \<and> files w file = Some p
        \<and> f p = Inr p' \<and> files w' = (files w)(file \<mapsto> p'))"
  by (auto simp add: nc_write_def split: option.splits dataset.splits sum.splits)

lemma nc_open_world:
  "nc_open d w = (h, w') \<Longrightarrow>
     h = fresh_handle (handles w) \<and> handles w' = handles w @ [(h, d)] \<and> files w' = files w
     \<and> calls w' = calls w \<and> nc_attr_ok w' = nc_attr_ok w"
  by (auto simp add: nc_open_def Let_def)

lemma fresh_handle_gt: "h \<in> fst ` set hs \<Longrightarrow> h < fresh_handle hs"
  by (induction hs) (auto simp add: less_max_iff_disj rev_image_eqI)

lemma fresh_handle_notin: "fresh_handle hs \<notin> fst ` set hs"
  using fresh_handle_gt [of "fresh_handle hs" hs] by auto

lemma map_of_fresh: "map_of (hs @ [(fresh_handle hs, d)]) (fresh_handle hs) = Some d"
proof -
  have "map_of hs (fresh_handle hs) = None"
    using fresh_handle_notin [of hs] by (simp add: map_of_eq_None_iff)
  then show ?thesis by (simp add: map_add_def)
qed

lemma compute_calls_append: "compute_calls (cs @ ds) = compute_calls cs @ compute_calls ds"
  by (induction cs rule: compute_calls.induct) auto

lemma partition_extends_refl: "partition_extends p p"
  by (simp add: partition_extends_def)

lemma partition_extends_trans:
  assumes "partition_extends p q" and "partition_extends q r"
  shows "partition_extends p r"
proof -
  let ?n = "length (rows p)" and ?m = "length (rows q)"
  from assms have nm: "?n \<le> ?m" and mr: "?m \<le> length (rows r)"
    and tq: "take ?n (rows q) = rows p" and tr: "take ?m (rows r) = rows q"
    and cq: "list_all complete_row (drop ?n (rows q))"
    and cr: "list_all complete_row (drop ?m (rows r))"
    by (simp_all add: partition_extends_def)
  have t: "take ?n (rows r) = rows p"
  proof -
    have "take ?n (rows r) = take ?n (take ?m (rows r))" using nm by (simp add: min_def)
    then show ?thesis using tr tq by simp
  qed
  have d: "drop ?n (rows r) = drop ?n (rows q) @ drop ?m (rows r)"
  proof -
    have "rows r = rows q @ drop ?m (rows r)" using tr by (metis append_take_drop_id)
    then have "drop ?n (rows r) = drop ?n (rows q @ drop ?m (rows r))" by simp
    then show ?thesis using nm by simp
  qed
  from assms nm mr t d cq cr show ?thesis by (simp add: partition_extends_def)
qed

lemma append_row:
  "set_image (length rs) img (set_end_time (length rs) e (set_start_time (length rs) s rs))
     = rs @ [(Some s, Some e, Some img)]"
  by (simp add: set_image_def set_end_time_def set_start_time_def grow_rows_def Let_def
      nth_append list_update_append)

lemma append_record_rows:
  "append_record cfg tr var_name img p = Inr p' \<Longrightarrow>
     p' = p\<lparr>rows := rows p @ [(Some (date2num (fst tr) (time_units cfg)),
                               Some (date2num (snd tr) (time_units cfg)), Some img)]\<rparr>"
  by (cases tr) (auto simp add: append_record_def Let_def append_row split: if_splits)

lemma append_record_extends:
  "append_record cfg tr var_name img p = Inr p' \<Longrightarrow> partition_extends p p'"
  by (drule append_record_rows) (simp add: partition_extends_def complete_row_def)

lemma fs_extends_refl: "fs_extends fs fs"
  by (auto simp add: fs_extends_def partition_extends_refl)

lemma fs_extends_trans: "fs_extends a b \<Longrightarrow> fs_extends b c \<Longrightarrow> fs_extends a c"
  unfolding fs_extends_def by (meson partition_extends_trans)

lemma fs_extends_eq: "fs' = fs \<Longrightarrow> fs_extends fs fs'"
  by (simp add: fs_extends_refl)

lemma fs_extends_new:
  "fs file = None \<Longrightarrow> \<forall>g. g \<noteq> file \<longrightarrow> fs' g = fs g \<Longrightarrow> fs_extends fs fs'"
  unfolding fs_extends_def by (metis option.distinct(1) partition_extends_refl)

lemma nc_write_only:
  "nc_write h f w = (r, w') \<Longrightarrow> map_of (handles w) h = Some (Dataset file)
     \<Longrightarrow> \<forall>g. g \<noteq> file \<longrightarrow> files w' g = files w g"
  by (auto simp add: nc_write_def split: option.splits sum.splits)

lemma nc_write_extends:
  assumes "nc_write h f w = (r, w')" and "\<And>p p'. f p = Inr p' \<Longrightarrow> partition_extends p p'"
  shows "fs_extends (files w) (files w')"
proof -
  from nc_write_files [OF assms(1)] show ?thesis
  proof
    assume "files w' = files w"
    then show ?thesis by (rule fs_extends_eq)
  next
    assume "\<exists>file p p'. map_of (handles w) h = Some (Dataset file) \<and> files w file = Some p
        \<and> f p = Inr p' \<and> files w' = (files w)(file \<mapsto> p')"
    then obtain pth p p' where p: "files w pth = Some p" and fp: "f p = Inr p'"
      and w': "files w' = (files w)(pth \<mapsto> p')" by blast
    from assms(2) [OF fp] p w' show ?thesis
      by (auto simp add: fs_extends_def partition_extends_refl)
  qed
qed

lemma init_variable_dataset_effect:
  assumes "init_variable_dataset cfg P h v w = (r, w')"
    and "map_of (handles w) h = Some (Dataset file)"
  shows "\<forall>g. g \<noteq> file \<longrightarrow> files w' g = files w g"
    and "handles w' = handles w"
    and "compute_calls (calls w') = compute_calls (calls w)"
proof -
  obtain r1 w1 where c1: "call_provider CallGetSpatialCoverage (p_get_spatial_coverage P) w = (r1, w1)"
    by (cases "call_provider CallGetSpatialCoverage (p_get_spatial_coverage P) w")
  note f1 = call_provider_world [OF c1]
  show "\<forall>g. g \<noteq> file \<longrightarrow> files w' g = files w g"
    and "handles w' = handles w"
    and "compute_calls (calls w') = compute_calls (calls w)"
  proof (atomize (full), cases r1)
    case (Inl e)
    with assms(1) c1 f1 show "(\<forall>g. g \<noteq> file \<longrightarrow> files w' g = files w g) \<and>
      handles w' = handles w \<and> compute_calls (calls w') = compute_calls (calls w)"
      by (auto simp add: init_variable_dataset_def compute_calls_append)
  next
    case (Inr coverage)
    obtain r2 w2 where c2: "nc_write h (init_coordinates cfg coverage) w1 = (r2, w2)"
      by (cases "nc_write h (init_coordinates cfg coverage) w1")
    have m1: "map_of (handles w1) h = Some (Dataset file)" using f1 assms(2) by simp
    note f2 = nc_write_world [OF c2] and o2 = nc_write_only [OF c2 m1]
    show "(\<forall>g. g \<noteq> file \<longrightarrow> files w' g = files w g) \<and>
      handles w' = handles w \<and> compute_calls (calls w') = compute_calls (calls w)"
    proof (cases r2)
      case (Some e)
      with assms(1) c1 Inr c2 f1 f2 o2 show ?thesis
        by (auto simp add: init_variable_dataset_def compute_calls_append)
    next
      case None
      obtain r3 w3 where c3: "call_provider CallGetVariableDescriptors
                       (p_get_variable_descriptors P) w2 = (r3, w3)"
        by (cases "call_provider CallGetVariableDescriptors (p_get_variable_descriptors P) w2")
      note f3 = call_provider_world [OF c3]
      show ?thesis
      proof (cases r3)
        case (Inl e)
        with assms(1) c1 Inr c2 None c3 f1 f2 o2 f3 show ?thesis
          by (auto simp add: init_variable_dataset_def compute_calls_append)
      next
        case r3: (Inr descs)
        have c4: "nc_write h (init_data_variable (nc_attr_ok w3) cfg v descs) w3 = (r, w')"
          using assms(1) c1 Inr c2 None c3 r3 by (simp add: init_variable_dataset_def)
        have m3: "map_of (handles w3) h = Some (Dataset file)" using f3 f2 m1 by simp
        note f4 = nc_write_world [OF c4] and o4 = nc_write_only [OF c4 m3]
        from f1 f2 o2 f3 f4 o4 show ?thesis by (auto simp add: compute_calls_append)
      qed
    qed
  qed
qed

section \<open>The update session: writing images\<close>

lemma write_image_effect:
  assumes "write_image self P tr v img (ds, w) = (r, ds', w')"
  shows "fs_extends (files w) (files w')
       \<and> compute_calls (calls w') = compute_calls (calls w)
       \<and> (r = None \<longrightarrow>
            (ds' = ds \<and> handles w' = handles w) \<or>
            (\<exists>fn d. ds' = ds @ [(fn, fresh_handle (handles w))]
                 \<and> handles w' = handles w @ [(fresh_handle (handles w), d)]))"
proof -
  let ?filename = "partition_filename (year_of (fst tr)) v"
  let ?file = "partition_file (base_dir self) (year_of (fst tr)) v"
  let ?app = "append_record (config self) tr v img"
  have ext: "\<And>p p'. ?app p = Inr p' \<Longrightarrow> partition_extends p p'"
    by (rule append_record_extends)
  show ?thesis
  proof (cases "map_of ds ?filename")
    case (Some h)
    obtain r1 w1 where c: "nc_write h ?app w = (r1, w1)" by (cases "nc_write h ?app w")
    from assms Some c have e: "r = r1" "ds' = ds" "w' = w1"
      by (simp_all add: write_image_def Let_def)
    from nc_write_extends [OF c ext] nc_write_world [OF c] e show ?thesis by simp
  next
    case None
    show ?thesis
    proof (cases "files w ?file \<noteq> None")
      case True
      obtain h w1 where o: "nc_append ?file w = (h, w1)" by (cases "nc_append ?file w")
      then have o': "nc_open (Dataset ?file) w = (h, w1)" by (simp add: nc_append_def)
      note fo = nc_open_world [OF o']
      obtain r2 w2 where c: "nc_write h ?app w1 = (r2, w2)" by (cases "nc_write h ?app w1")
      from assms None True o c have e: "r = r2" "ds' = ds @ [(?filename, h)]" "w' = w2"
        by (simp_all add: write_image_def Let_def)
      from nc_write_extends [OF c ext] nc_write_world [OF c] fo e show ?thesis by auto
    next
      case False
      then have nofile: "files w ?file = None" by simp
      obtain h w1 where o: "nc_create ?file (file_format (config self)) w = (h, w1)"
        by (cases "nc_create ?file (file_format (config self)) w")
      then have o': "nc_open (Dataset ?file)
                       (w\<lparr>files := (files w)(?file \<mapsto> empty_partition (file_format (config self)))\<rparr>)
                     = (h, w1)"
        by (simp add: nc_create_def)
      note fo = nc_open_world [OF o']
      have h: "h = fresh_handle (handles w)" and hs1: "handles w1 = handles w @ [(h, Dataset ?file)]"
        and c1: "calls w1 = calls w" using fo by simp_all
      have only1: "\<forall>g. g \<noteq> ?file \<longrightarrow> files w1 g = files w g" using fo by simp
      have m1: "map_of (handles w1) h = Some (Dataset ?file)"
        unfolding hs1 h by (rule map_of_fresh)
      obtain r2 w2 where i: "init_variable_dataset (config self) P h v w1 = (r2, w2)"
        by (cases "init_variable_dataset (config self) P h v w1")
      note fi = init_variable_dataset_effect [OF i m1]
      show ?thesis
      proof (cases r2)
        case (Some e)
        with assms None False o i have e: "r = Some e" "ds' = ds" "w' = w2"
          by (simp_all add: write_image_def Let_def)
        have "\<forall>g. g \<noteq> ?file \<longrightarrow> files w' g = files w g" using fi(1) only1 e by simp
        from fs_extends_new [OF nofile this] fi(3) c1 e show ?thesis by simp
      next
        case none: None
        obtain r3 w3 where c: "nc_write h ?app w2 = (r3, w3)" by (cases "nc_write h ?app w2")
        from assms None False o i none c
        have e: "r = r3" "ds' = ds @ [(?filename, h)]" "w' = w3"
          by (simp_all add: write_image_def Let_def)
        have m2: "map_of (handles w2) h = Some (Dataset ?file)" using fi(2) m1 by simp
        note fw = nc_write_world [OF c] and ow = nc_write_only [OF c m2]
        have "\<forall>g. g \<noteq> ?file \<longrightarrow> files w' g = files w g" using fi(1) only1 ow e by simp
        from fs_extends_new [OF nofile this] fi(2,3) c1 hs1 h fw e show ?thesis by auto
      qed
    qed
  qed
qed

lemma write_images_effect:
  "write_images self P tr imgs (ds, w) = (r, ds', w') \<Longrightarrow>
     fs_extends (files w) (files w')
     \<and> compute_calls (calls w') = compute_calls (calls w)"
proof (induction imgs arbitrary: ds w)
  case Nil
  then show ?case by (simp add: fs_extends_refl)
next
  case (Cons a imgs)
  obtain v oi where a: "a = (v, oi)" by (cases a)
  show ?case
  proof (cases oi)
    case None
    with Cons a show ?thesis by simp
  next
    case (Some img)
    obtain r1 ds1 w1 where wi: "write_image self P tr v img (ds, w) = (r1, ds1, w1)"
      by (cases "write_image self P tr v img (ds, w)")
    note e1 = write_image_effect [OF wi]
    show ?thesis
    proof (cases r1)
      case None
      with Cons.prems a Some wi have "write_images self P tr imgs (ds1, w1) = (r, ds', w')"
        by simp
      from Cons.IH [OF this] e1 show ?thesis by (auto intro: fs_extends_trans)
    next
      case (Some e)
      with Cons.prems a \<open>oi = Some img\<close> wi e1 show ?thesis by simp
    qed
  qed
qed

lemma write_image_session:
  assumes "write_image self P tr v img (ds, w) = (None, ds', w')"
    and "session_inv hs0 (ds, w)"
  shows "session_inv hs0 (ds', w')"
proof -
  from assms(2) obtain new where n: "handles w = hs0 @ new" "map fst new = map snd ds"
    "fst ` set new \<inter> fst ` set hs0 = {}"
    by (auto simp add: session_inv_def)
  have fr: "fresh_handle (handles w) \<notin> fst ` set hs0"
    using fresh_handle_notin [of "handles w"] n(1) by auto
  from write_image_effect [OF assms(1)]
  have "(ds' = ds \<and> handles w' = handles w) \<or>
        (\<exists>fn d. ds' = ds @ [(fn, fresh_handle (handles w))]
             \<and> handles w' = handles w @ [(fresh_handle (handles w), d)])"
    by simp
  then show ?thesis
  proof
    assume "ds' = ds \<and> handles w' = handles w"
    with n show ?thesis by (auto simp add: session_inv_def)
  next
    assume "\<exists>fn d. ds' = ds @ [(fn, fresh_handle (handles w))]
             \<and> handles w' = handles w @ [(fresh_handle (handles w), d)]"
    then obtain fn d where "ds' = ds @ [(fn, fresh_handle (handles w))]"
      and "handles w' = hs0 @ (new @ [(fresh_handle (handles w), d)])"
      using n by auto
    with n fr show ?thesis
      unfolding session_inv_def
      by (intro exI [of _ "new @ [(fresh_handle (handles w), d)]"]) auto
  qed
qed

lemma write_images_session:
  "write_images self P tr imgs (ds, w) = (None, ds', w') \<Longrightarrow> session_inv hs0 (ds, w)
     \<Longrightarrow> session_inv hs0 (ds', w')"
proof (induction imgs arbitrary: ds w)
  case Nil
  then show ?case by simp
next
  case (Cons a imgs)
  obtain v oi where a: "a = (v, oi)" by (cases a)
  show ?case
  proof (cases oi)
    case None
    with Cons a show ?thesis by simp
  next
    case (Some img)
    obtain r1 ds1 w1 where wi: "write_image self P tr v img (ds, w) = (r1, ds1, w1)"
      by (cases "write_image self P tr v img (ds, w)")
    show ?thesis
    proof (cases r1)
      case None
      with Cons.prems a Some wi have rest: "write_images self P tr imgs (ds1, w1) = (None, ds', w')"
        by simp
      from wi None have "write_image self P tr v img (ds, w) = (None, ds1, w1)" by simp
      from Cons.IH [OF rest write_image_session [OF this Cons.prems(2)]] show ?thesis .
    next
      case (Some e)
      with Cons.prems a \<open>oi = Some img\<close> wi show ?thesis by simp
    qed
  qed
qed

lemma session_inv_handles:
  "handles w' = handles w \<Longrightarrow> session_inv hs0 (ds, w) \<Longrightarrow> session_inv hs0 (ds, w')"
  by (simp add: session_inv_def)

lemma update_period_effect:
  assumes "update_period self P ts te t1 t2 (ds, w) = (r, ds', w')"
  shows "fs_extends (files w) (files w')"
    and "r = None \<Longrightarrow> session_inv hs0 (ds, w) \<Longrightarrow> session_inv hs0 (ds', w')"
    and "r = None \<Longrightarrow> compute_calls (calls w') =
           compute_calls (calls w) @ (if positive_weight ts te (t1, t2) then [(t1, t2)] else [])"
proof -
  have "fs_extends (files w) (files w')
      \<and> (r = None \<longrightarrow> session_inv hs0 (ds, w) \<longrightarrow> session_inv hs0 (ds', w'))
      \<and> (r = None \<longrightarrow> compute_calls (calls w') =
           compute_calls (calls w) @ (if positive_weight ts te (t1, t2) then [(t1, t2)] else []))"
  proof (cases "temporal_weight t1 t2 ts te")
    case (Inl e)
    with assms show ?thesis by (auto simp add: update_period_def fs_extends_refl)
  next
    case (Inr weight)
    show ?thesis
    proof (cases "weight > 0")
      case False
      with assms Inr show ?thesis
        by (auto simp add: update_period_def fs_extends_refl positive_weight_def)
    next
      case True
      then have pos: "positive_weight ts te (t1, t2)" using Inr by (simp add: positive_weight_def)
      obtain r1 w1 where c: "call_provider (CallComputeVariableImages t1 t2)
                    (p_compute_variable_images P t1 t2) w = (r1, w1)"
        by (cases "call_provider (CallComputeVariableImages t1 t2)
                    (p_compute_variable_images P t1 t2) w")
      note f1 = call_provider_world [OF c]
      have cc1: "compute_calls (calls w1) = compute_calls (calls w) @ [(t1, t2)]"
        using f1 by (simp add: compute_calls_append)
      have ex1: "fs_extends (files w) (files w1)" using f1 by (simp add: fs_extends_refl)
      have inv1: "session_inv hs0 (ds, w) \<Longrightarrow> session_inv hs0 (ds, w1)"
        using f1 by (simp add: session_inv_def)
      show ?thesis
      proof (cases r1)
        case (Inl e)
        with assms Inr True c ex1 show ?thesis by (auto simp add: update_period_def)
      next
        case r1: (Inr oimgs)
        show ?thesis
        proof (cases oimgs)
          case None
          with assms Inr True c r1 have "r = None" "ds' = ds" "w' = w1"
            by (simp_all add: update_period_def)
          with ex1 inv1 cc1 pos show ?thesis by simp
        next
          case (Some imgs)
          show ?thesis
          proof (cases "imgs = []")
            case True
            with assms Inr \<open>weight > 0\<close> c r1 Some have "r = None" "ds' = ds" "w' = w1"
              by (simp_all add: update_period_def)
            with ex1 inv1 cc1 pos show ?thesis by simp
          next
            case False
            with assms Inr \<open>weight > 0\<close> c r1 Some
            have wi: "write_images self P (t1, t2) imgs (ds, w1) = (r, ds', w')"
              by (simp add: update_period_def)
            note e = write_images_effect [OF wi]
            have s: "r = None \<Longrightarrow> session_inv hs0 (ds, w) \<Longrightarrow> session_inv hs0 (ds', w')"
              using wi inv1 write_images_session by blast
            from e ex1 cc1 pos s show ?thesis by (auto intro: fs_extends_trans)
          qed
        qed
      qed
    qed
  qed
  then show "fs_extends (files w) (files w')"
    and "r = None \<Longrightarrow> session_inv hs0 (ds, w) \<Longrightarrow> session_inv hs0 (ds', w')"
    and "r = None \<Longrightarrow> compute_calls (calls w') =
           compute_calls (calls w) @ (if positive_weight ts te (t1, t2) then [(t1, t2)] else [])"
    by simp_all
qed

section \<open>The update session: the loops\<close>





lemma for_periods_record_acc:
  "for_periods record_period d tmax k t acc =
     (fst (for_periods record_period d tmax k t []),
      acc @ snd (for_periods record_period d tmax k t []))"
proof (induction k arbitrary: t acc)
  case 0
  then show ?case by simp
next
  case (Suc k)
  show ?case
  proof (cases "datetime_add t d")
    case (Inl e)
    then show ?thesis by simp
  next
    case (Inr t')
    let ?t2 = "if t' > tmax then tmax else t'"
    have a: "for_periods record_period d tmax (Suc k) t acc
               = for_periods record_period d tmax k ?t2 (acc @ [(t, ?t2)])"
      using Inr by (simp add: Let_def record_period_def)
    have b: "for_periods record_period d tmax (Suc k) t []
               = for_periods record_period d tmax k ?t2 [(t, ?t2)]"
      using Inr by (simp add: Let_def record_period_def)
    show ?thesis
      unfolding a b
      by (subst Suc.IH, subst (2 3) Suc.IH) simp
  qed
qed

lemma for_periods_record_Suc:
  "datetime_add t d = Inr t' \<Longrightarrow>
     for_periods record_period d tmax (Suc k) t acc =
       for_periods record_period d tmax k (if t' > tmax then tmax else t')
         (acc @ [(t, if t' > tmax then tmax else t')])"
  by (simp add: Let_def record_period_def)

lemma for_periods_update_calls:
  "for_periods (update_period self P ts te) d tmax k t (ds, w) = (None, ds', w') \<Longrightarrow>
     for_periods record_period d tmax k t [] = (None, ps) \<Longrightarrow>
     compute_calls (calls w') = compute_calls (calls w) @ filter (positive_weight ts te) ps"
proof (induction k arbitrary: t ds w ps)
  case 0
  then show ?case by simp
next
  case (Suc k)
  show ?case
  proof (cases "datetime_add t d")
    case (Inl e)
    with Suc.prems show ?thesis by simp
  next
    case (Inr t')
    let ?t2 = "if t' > tmax then tmax else t'"
    obtain r1 ds1 w1 where b: "update_period self P ts te t ?t2 (ds, w) = (r1, ds1, w1)"
      by (cases "update_period self P ts te t ?t2 (ds, w)")
    show ?thesis
    proof (cases r1)
      case (Some e)
      with Suc.prems Inr b show ?thesis by (simp add: Let_def)
    next
      case None
      with Suc.prems(1) Inr b
      have l: "for_periods (update_period self P ts te) d tmax k ?t2 (ds1, w1) = (None, ds', w')"
        by (simp add: Let_def)
      have "for_periods record_period d tmax k ?t2 ([] @ [(t, ?t2)]) = (None, ps)"
        using Suc.prems(2) unfolding for_periods_record_Suc [OF Inr] .
      then have "(fst (for_periods record_period d tmax k ?t2 []),
                  ([] @ [(t, ?t2)]) @ snd (for_periods record_period d tmax k ?t2 [])) = (None, ps)"
        by (subst (asm) for_periods_record_acc)
      then have rec: "fst (for_periods record_period d tmax k ?t2 []) = None"
        and ps: "ps = (t, ?t2) # snd (for_periods record_period d tmax k ?t2 [])"
        by simp_all
      from rec have rec': "for_periods record_period d tmax k ?t2 []
                             = (None, snd (for_periods record_period d tmax k ?t2 []))"
        by (simp add: prod_eq_iff)
      note u = update_period_effect(3) [OF b None]
      from Suc.IH [OF l rec'] u ps show ?thesis by simp
    qed
  qed
qed

lemma for_periods_record_ok:
  "for_periods body d tmax k t s = (None, s') \<Longrightarrow>
     fst (for_periods record_period d tmax k t []) = None"
proof (induction k arbitrary: t s)
  case 0
  then show ?case by simp
next
  case (Suc k)
  show ?case
  proof (cases "datetime_add t d")
    case (Inl e)
    with Suc.prems show ?thesis by simp
  next
    case (Inr t')
    let ?t2 = "if t' > tmax then tmax else t'"
    obtain r1 s1 where b: "body t ?t2 s = (r1, s1)" by (cases "body t ?t2 s")
    show ?thesis
    proof (cases r1)
      case (Some e)
      with Suc.prems Inr b show ?thesis by (simp add: Let_def)
    next
      case None
      with Suc.prems Inr b have "for_periods body d tmax k ?t2 s1 = (None, s')"
        by (simp add: Let_def)
      from Suc.IH [OF this] have "fst (for_periods record_period d tmax k ?t2 []) = None" .
      then show ?thesis
        unfolding for_periods_record_Suc [OF Inr]
        by (subst for_periods_record_acc) simp
    qed
  qed
qed

lemma for_years_record_acc:
  "for_years record_period res n years acc =
     (fst (for_years record_period res n years []),
      acc @ snd (for_years record_period res n years []))"
proof (induction years arbitrary: acc)
  case Nil
  then show ?case by simp
next
  case (Cons y years)
  show ?case
  proof (cases "datetime_jan1 y")
    case (Inl e)
    then show ?thesis by simp
  next
    case tmin: (Inr time_min)
    show ?thesis
    proof (cases "datetime_jan1 (y + 1)")
      case (Inl e)
      with tmin show ?thesis by simp
    next
      case tmax: (Inr time_max)
      show ?thesis
      proof (cases "timedelta_days res")
        case (Inl e)
        with tmin tmax show ?thesis by simp
      next
        case (Inr d)
        let ?l = "for_periods record_period d time_max n time_min []"
        have l: "for_periods record_period d time_max n time_min acc = (fst ?l, acc @ snd ?l)"
          by (rule for_periods_record_acc)
        show ?thesis
        proof (cases "fst ?l")
          case (Some e)
          then obtain q where lq: "?l = (Some e, q)" by (cases ?l) auto
          show ?thesis
            using tmin tmax Inr l lq by simp
        next
          case None
          then obtain q where lq: "?l = (None, q)" by (cases ?l) auto
          have a: "for_years record_period res n (y # years) acc
                     = for_years record_period res n years (acc @ snd ?l)"
            using tmin tmax Inr l lq by simp
          have b: "for_years record_period res n (y # years) []
                     = for_years record_period res n years (snd ?l)"
            using tmin tmax Inr lq by simp
          show ?thesis
            unfolding a b by (subst Cons.IH, subst (2 3) Cons.IH) simp
        qed
      qed
    qed
  qed
qed

lemma for_years_update_calls:
  "for_years (update_period self P ts te) res n years (ds, w) = (None, ds', w') \<Longrightarrow>
     compute_calls (calls w') =
       compute_calls (calls w) @
         filter (positive_weight ts te) (snd (for_years record_period res n years []))
     \<and> fst (for_years record_period res n years []) = None"
proof (induction years arbitrary: ds w)
  case Nil
  then show ?case by simp
next
  case (Cons y years)
  show ?case
  proof (cases "datetime_jan1 y")
    case (Inl e)
    with Cons.prems show ?thesis by simp
  next
    case tmin: (Inr time_min)
    show ?thesis
    proof (cases "datetime_jan1 (y + 1)")
      case (Inl e)
      with Cons.prems tmin show ?thesis by simp
    next
      case tmax: (Inr time_max)
      show ?thesis
      proof (cases "timedelta_days res")
        case (Inl e)
        with Cons.prems tmin tmax show ?thesis by simp
      next
        case (Inr d)
        let ?l = "for_periods record_period d time_max n time_min []"
        obtain r1 ds1 w1 where
          l: "for_periods (update_period self P ts te) d time_max n time_min (ds, w) = (r1, ds1, w1)"
          by (cases "for_periods (update_period self P ts te) d time_max n time_min (ds, w)")
        show ?thesis
        proof (cases r1)
          case (Some e)
          with Cons.prems tmin tmax Inr l show ?thesis by simp
        next
          case None
          with Cons.prems tmin tmax Inr l
          have y: "for_years (update_period self P ts te) res n years (ds1, w1) = (None, ds', w')"
            by simp
          from l None
          have l': "for_periods (update_period self P ts te) d time_max n time_min (ds, w)
                      = (None, ds1, w1)" by simp
          have ok: "fst ?l = None" by (rule for_periods_record_ok [OF l'])
          then obtain q where lq: "?l = (None, q)" by (cases ?l) auto
          then have l0: "?l = (None, snd ?l)" by simp
          note c1 = for_periods_update_calls [OF l' l0]
          note ih = Cons.IH [OF y]
          have b: "for_years record_period res n (y # years) []
                     = for_years record_period res n years (snd ?l)"
            using tmin tmax Inr lq by simp
          have b': "for_years record_period res n (y # years) []
                     = (fst (for_years record_period res n years []),
                        snd ?l @ snd (for_years record_period res n years []))"
            unfolding b by (rule for_years_record_acc)
          from c1 ih show ?thesis unfolding b' by simp
        qed
      qed
    qed
  qed
qed

lemma close_session_world:
  "files (close_session ds w) = files w \<and> calls (close_session ds w) = calls w
   \<and> handles (close_session ds w) = filter (\<lambda>e. fst e \<notin> snd ` set ds) (handles w)"
proof (induction ds arbitrary: w)
  case Nil
  then show ?case by simp
next
  case (Cons a ds)
  obtain key h where a: "a = (key, h)" by (cases a)
  show ?case
    unfolding a by (simp add: Cons.IH nc_close_def)
qed

section \<open>The update session as a whole\<close>




lemma update_ok:
  assumes "update self P w = (None, w')"
  obtains w1 w2 coverage st where
    "call_provider CallPrepare (unit_method (p_prepare P)) w = (Inr (), w1)"
    and "call_provider CallGetTemporalCoverage (p_get_temporal_coverage P) w1 = (Inr coverage, w2)"
    and "for_years
           (update_period self P
              (case start_time (config self) of
                 Some t \<Rightarrow> if t > fst coverage then t else fst coverage
               | None \<Rightarrow> fst coverage)
              (case end_time (config self) of
                 Some t \<Rightarrow> if t < snd coverage then t else snd coverage
               | None \<Rightarrow> snd coverage))
           (temporal_res (config self)) (num_periods_per_year (temporal_res (config self)))
           [year_of (case start_time (config self) of
                       Some t \<Rightarrow> if t > fst coverage then t else fst coverage
                     | None \<Rightarrow> fst coverage)..
            year_of (case end_time (config self) of
                       Some t \<Rightarrow> if t < snd coverage then t else snd coverage
                     | None \<Rightarrow> snd coverage)]
           ([], w2) = (None, st)"
    and "call_provider CallClose (unit_method (p_close P)) (close_session (fst st) (snd st))
           = (Inr (), w')"
proof -
  from assms have nc: "\<not> cube_closed self" by (auto simp add: update_def)
  obtain r1 w1 where c1: "call_provider CallPrepare (unit_method (p_prepare P)) w = (r1, w1)"
    by (cases "call_provider CallPrepare (unit_method (p_prepare P)) w")
  from assms nc c1 obtain u where r1: "r1 = Inr u" by (cases r1) (auto simp add: update_def)
  obtain r2 w2 where
    c2: "call_provider CallGetTemporalCoverage (p_get_temporal_coverage P) w1 = (r2, w2)"
    by (cases "call_provider CallGetTemporalCoverage (p_get_temporal_coverage P) w1")
  from assms nc c1 r1 c2 obtain coverage where r2: "r2 = Inr coverage"
    by (cases r2) (auto simp add: update_def)
  let ?ts = "case start_time (config self) of
                 Some t \<Rightarrow> if t > fst coverage then t else fst coverage
               | None \<Rightarrow> fst coverage"
  let ?te = "case end_time (config self) of
                 Some t \<Rightarrow> if t < snd coverage then t else snd coverage
               | None \<Rightarrow> snd coverage"
  let ?l = "for_years (update_period self P ?ts ?te)
           (temporal_res (config self)) (num_periods_per_year (temporal_res (config self)))
           [year_of ?ts..year_of ?te] ([], w2)"
  from assms nc c1 r1 c2 r2 have nz: "temporal_res (config self) \<noteq> 0"
    by (auto simp add: update_def Let_def)
  obtain r3 st where l: "?l = (r3, st)" by (cases ?l)
  from assms nc c1 r1 c2 r2 nz l have r3: "r3 = None"
    by (cases r3) (auto simp add: update_def Let_def)
  obtain r4 w4 where
    c4: "call_provider CallClose (unit_method (p_close P)) (close_session (fst st) (snd st))
           = (r4, w4)"
    by (cases "call_provider CallClose (unit_method (p_close P)) (close_session (fst st) (snd st))")
  from assms nc c1 r1 c2 r2 nz l r3 c4 have r4: "r4 = Inr ()" and w4: "w4 = w'"
    by (cases r4; auto simp add: update_def Let_def)+
  from c1 r1 have c1': "call_provider CallPrepare (unit_method (p_prepare P)) w = (Inr (), w1)"
    by simp
  from that [OF c1' c2 [unfolded r2] l [unfolded r3] c4 [unfolded r4 w4]] show thesis .
qed


lemma update_calls:
  assumes "update self P w = (None, w')"
    and "\<forall>s. \<exists>s'. p_get_temporal_coverage P s = Inr (coverage, s')"
  shows "compute_calls (calls w') =
     compute_calls (calls w) @
       (let ts = (case start_time (config self) of
                    Some t \<Rightarrow> if t > fst coverage then t else fst coverage
                  | None \<Rightarrow> fst coverage);
            te = (case end_time (config self) of
                    Some t \<Rightarrow> if t < snd coverage then t else snd coverage
                  | None \<Rightarrow> snd coverage)
        in filter (positive_weight ts te)
             (snd (for_years record_period (temporal_res (config self))
                     (num_periods_per_year (temporal_res (config self)))
                     [year_of ts..year_of te] [])))"
proof -
  from assms(1) obtain w1 w2 cov st where
    c1: "call_provider CallPrepare (unit_method (p_prepare P)) w = (Inr (), w1)"
    and c2: "call_provider CallGetTemporalCoverage (p_get_temporal_coverage P) w1 = (Inr cov, w2)"
    and l: "for_years
           (update_period self P
              (case start_time (config self) of
                 Some t \<Rightarrow> if t > fst cov then t else fst cov
               | None \<Rightarrow> fst cov)
              (case end_time (config self) of
                 Some t \<Rightarrow> if t < snd cov then t else snd cov
               | None \<Rightarrow> snd cov))
           (temporal_res (config self)) (num_periods_per_year (temporal_res (config self)))
           [year_of (case start_time (config self) of
                       Some t \<Rightarrow> if t > fst cov then t else fst cov
                     | None \<Rightarrow> fst cov)..
            year_of (case end_time (config self) of
                       Some t \<Rightarrow> if t < snd cov then t else snd cov
                     | None \<Rightarrow> snd cov)]
           ([], w2) = (None, st)"
    and c4: "call_provider CallClose (unit_method (p_close P)) (close_session (fst st) (snd st))
           = (Inr (), w')"
    by (rule update_ok)
  from assms(2) obtain s' where "p_get_temporal_coverage P (prov (w1\<lparr>calls := calls w1 @ [CallGetTemporalCoverage]\<rparr>)) = Inr (coverage, s')"
    by blast
  with c2 have cov: "cov = coverage" by (simp add: call_provider_def Let_def)
  note f1 = call_provider_world [OF c1] and f2 = call_provider_world [OF c2]
    and f4 = call_provider_world [OF c4]
  obtain ds3 w3 where st: "st = (ds3, w3)" by (cases st)
  note y = for_years_update_calls [OF l [unfolded st]]
  have "compute_calls (calls w') = compute_calls (calls w3)"
    using f4 st by (simp add: compute_calls_append close_session_world)
  moreover have "compute_calls (calls w2) = compute_calls (calls w)"
    using f1 f2 by (simp add: compute_calls_append)
  ultimately show ?thesis using y unfolding cov by (simp add: Let_def)
qed

section \<open>The claims on the update session\<close>

lemma mock_session_completes:
  "fst (update coarse_cube (mock_provider (config coarse_cube) (jan_2001 1) (feb_2001 1))
          (initial_world 0)) = None"
  by code_simp

lemma periods_2001:
  "length (snd (year_periods 8 2001)) = 46
   \<and> filter (positive_weight (jan_2001 1) (feb_2001 1)) (snd (year_periods 8 2001))
       = [(jan_2001 1, jan_2001 9), (jan_2001 9, jan_2001 17), (jan_2001 17, jan_2001 25),
          (jan_2001 25, feb_2001 2)]
   \<and> list_all (\<lambda>p. temporal_weight (fst p) (snd p) (jan_2001 1) (feb_2001 1) = Inr 0)
        (drop 4 (snd (year_periods 8 2001)))"
  by code_simp

lemma year_of_2001: "year_of (jan_2001 1) = 2001 \<and> year_of (feb_2001 1) = 2001"
  by code_simp

text \<open>
  Claim C1. For a cube with periods of eight days and the time bounds 2001-01-01 and
  2001-02-01, and a provider whose coverage is \<open>[2001-01-01, 2001-02-01)\<close>, an update that
  completes calls \<^verbatim>\<open>compute_variable_images\<close> exactly four times, with the periods
  (01-01, 01-09), (01-09, 01-17), (01-17, 01-25), (01-25, 02-02) in this order. These are
  the periods of positive weight among the 46 the year loop steps through; the other 42
  have weight zero and are skipped.
\<close>

theorem update_calls_four_periods:
  assumes "temporal_res (config self) = 8"
    and "start_time (config self) = Some (jan_2001 1)"
    and "end_time (config self) = Some (feb_2001 1)"
    and "\<forall>s. \<exists>s'. p_get_temporal_coverage provider s = Inr ((jan_2001 1, feb_2001 1), s')"
    and "fst (update self provider w) = None"
  shows "compute_calls (calls (snd (update self provider w)))
           = compute_calls (calls w) @
               [(jan_2001 1, jan_2001 9), (jan_2001 9, jan_2001 17), (jan_2001 17, jan_2001 25),
                (jan_2001 25, feb_2001 2)]
       \<and> length (snd (year_periods 8 2001)) = 46
       \<and> filter (positive_weight (jan_2001 1) (feb_2001 1)) (snd (year_periods 8 2001))
           = [(jan_2001 1, jan_2001 9), (jan_2001 9, jan_2001 17), (jan_2001 17, jan_2001 25),
              (jan_2001 25, feb_2001 2)]
       \<and> list_all (\<lambda>p. temporal_weight (fst p) (snd p) (jan_2001 1) (feb_2001 1) = Inr 0)
            (drop 4 (snd (year_periods 8 2001)))"
proof -
  from assms(5) have u: "update self provider w = (None, snd (update self provider w))"
    by (simp add: prod_eq_iff)
  have years: "[year_of (jan_2001 1)..year_of (feb_2001 1)] = [2001]"
    by (simp add: year_of_2001)
  from update_calls [OF u assms(4)]
  have "compute_calls (calls (snd (update self provider w)))
          = compute_calls (calls w) @
              filter (positive_weight (jan_2001 1) (feb_2001 1)) (snd (year_periods 8 2001))"
    by (simp add: assms(1,2,3) years year_periods_def)
  with periods_2001 show ?thesis by simp
qed

theorem update_calls_four_periods_witness:
  "fst (update coarse_cube (mock_provider (config coarse_cube) (jan_2001 1) (feb_2001 1))
          (initial_world 0)) = None
   \<and> compute_calls
        (calls (snd (update coarse_cube
                       (mock_provider (config coarse_cube) (jan_2001 1) (feb_2001 1))
                       (initial_world 0))))
       = [(jan_2001 1, jan_2001 9), (jan_2001 9, jan_2001 17), (jan_2001 17, jan_2001 25),
          (jan_2001 25, feb_2001 2)]"
proof -
  have h1: "temporal_res (config coarse_cube) = 8"
    by (simp add: coarse_cube_def default_config_def)
  have h2: "start_time (config coarse_cube) = Some (jan_2001 1)"
    by (simp add: coarse_cube_def default_config_def jan_2001_def)
  have h3: "end_time (config coarse_cube) = Some (feb_2001 1)"
    by (simp add: coarse_cube_def default_config_def feb_2001_def)
  have h4: "\<forall>s. \<exists>s'. p_get_temporal_coverage
                       (mock_provider (config coarse_cube) (jan_2001 1) (feb_2001 1)) s
                     = Inr ((jan_2001 1, feb_2001 1), s')"
    by (simp add: mock_provider_def)
  have c0: "compute_calls (calls (initial_world 0 :: (nat, rat) world)) = []"
    by (simp add: initial_world_def)
  from update_calls_four_periods [OF h1 h2 h3 h4 mock_session_completes] mock_session_completes
  show ?thesis unfolding c0 by simp
qed




section \<open>Appending to partitions\<close>






section \<open>The weighted-average provider\<close>

lemma index_to_weight_loop_eq:
  "list_all (\<lambda>r. fst r \<noteq> snd r) ranges \<Longrightarrow>
   index_to_weight_loop ps pe i ranges acc =
     Inr (acc @ filter (\<lambda>e. snd e > 0)
                  (map (\<lambda>e. (fst e, of_int (overlap (fst (snd e)) (snd (snd e)) ps pe)
                                      / of_int (snd (snd e) - fst (snd e))))
                     (zip [i..<i + length ranges] ranges)))"
proof (induction ranges arbitrary: i acc)
  case Nil
  then show ?case by simp
next
  case (Cons r rest)
  obtain s e where r: "r = (s, e)" by (cases r)
  from Cons.prems r have ne: "e - s \<noteq> 0" and rest: "list_all (\<lambda>r. fst r \<noteq> snd r) rest"
    by auto
  have z: "zip [i..<i + length (r # rest)] (r # rest)
             = (i, r) # zip [Suc i..<Suc i + length rest] rest"
    by (subst upt_rec) simp
  from ne have ne': "s \<noteq> e" by auto
  show ?case
    by (subst z) (use ne' in \<open>auto simp add: r temporal_weight_def Cons.IH [OF rest]\<close>)
qed

lemma compute_variable_images_eq:
  assumes "list_all (\<lambda>r. fst r \<noteq> snd r) ranges"
  shows "compute_variable_images ranges from_sources ps pe =
     (let index_to_weight =
            filter (\<lambda>e. snd e > 0)
              (map (\<lambda>e. (fst e, of_int (overlap (fst (snd e)) (snd (snd e)) ps pe)
                                  / of_int (snd (snd e) - fst (snd e))))
                 (zip [0..<length ranges] ranges))
      in if index_to_weight = [] then Inr None
         else case from_sources index_to_weight of
                Inl e \<Rightarrow> Inl e
              | Inr None \<Rightarrow> Inl AttributeError
              | Inr (Some result) \<Rightarrow> Inr (Some result))"
  using index_to_weight_loop_eq [OF assms, of ps pe 0 "[]"]
  by (cases ranges) (simp_all add: compute_variable_images_def Let_def)

text \<open>
  Claim C3 fails where \<^verbatim>\<open>compute_variable_images_from_sources\<close> returns \<^verbatim>\<open>None\<close>, as
  its documentation allows. One source range equal to the period has weight 1, the
  subclass is called, and its result \<^verbatim>\<open>None\<close> is not returned: the log line that follows
  reads \<^verbatim>\<open>result.keys()\<close> and raises \<^verbatim>\<open>AttributeError\<close>. (With no overlapping source
  range, \<^verbatim>\<open>None\<close> is returned, as claimed.)
\<close>

theorem compute_variable_images_None_result:
  "temporal_weight (jan_2001 1) (jan_2001 9) (jan_2001 1) (jan_2001 9) = Inr 1
   \<and> compute_variable_images [(jan_2001 1, jan_2001 9)] (\<lambda>index_to_weight. Inr None)
         (jan_2001 1) (jan_2001 9)
       = (Inl AttributeError :: error + unit images option)
   \<and> compute_variable_images [(jan_2001 1, jan_2001 9)] (\<lambda>index_to_weight. Inr None)
         (jan_2001 9) (jan_2001 17)
       = (Inr None :: error + unit images option)"
  by code_simp

section \<open>The periods of a leap year\<close>

text \<open>
  The candidate periods of a year in closed form. The \<open>k\<close>-th period starts \<open>k\<close> steps and
  ends \<open>k + 1\<close> steps after January 1, both clipped to the next January 1; there are
  \<^verbatim>\<open>ceil(365.0 / temporal_res)\<close> of them, whatever the length of the year. So the last
  period ends at the next January 1 exactly when that many steps reach it.
\<close>

lemma for_periods_record_closed:
  assumes "0 \<le> d" and "0 \<le> t" and "t \<le> tmax" and "tmax + d \<le> datetime_max"
  shows "for_periods record_period d tmax n t acc =
           (None, acc @ map (\<lambda>k. (min (t + int k * d) tmax, min (t + (int k + 1) * d) tmax))
                          [0..<n])"
  using assms(2,3)
proof (induction n arbitrary: t acc)
  case 0
  then show ?case by simp
next
  case (Suc n)
  let ?t2 = "min (t + d) tmax"
  have add: "datetime_add t d = Inr (t + d)"
    using assms(1,4) Suc.prems by (simp add: datetime_add_def)
  have t2: "(if t + d > tmax then tmax else t + d) = ?t2" by (simp add: min_def)
  have b: "0 \<le> ?t2" "?t2 \<le> tmax" using assms(1) Suc.prems by simp_all
  have shift: "\<And>k. min (?t2 + int k * d) tmax = min (t + (int k + 1) * d) tmax"
  proof -
    fix k :: nat
    have kd: "0 \<le> int k * d" using assms(1) by simp
    show "min (?t2 + int k * d) tmax = min (t + (int k + 1) * d) tmax"
    proof (cases "t + d \<le> tmax")
      case True
      then show ?thesis by (simp add: min_def algebra_simps)
    next
      case False
      then have "?t2 = tmax" by (simp add: min_def)
      moreover have "tmax \<le> t + (int k + 1) * d" using False kd by (simp add: algebra_simps)
      ultimately show ?thesis using kd by (simp add: min_def)
    qed
  qed
  have shift2: "\<And>k. min (?t2 + (int k + 1) * d) tmax = min (t + (int (Suc k) + 1) * d) tmax"
    using shift [of "Suc _"] by (simp add: algebra_simps)
  have step: "for_periods record_period d tmax (Suc n) t acc
                = for_periods record_period d tmax n ?t2 (acc @ [(t, ?t2)])"
    using add t2 by (simp add: Let_def record_period_def)
  have first: "(min (t + int 0 * d) tmax, min (t + (int 0 + 1) * d) tmax) = (t, ?t2)"
    using Suc.prems by (simp add: min_def)
  have "map (\<lambda>k. (min (t + int k * d) tmax, min (t + (int k + 1) * d) tmax)) [0..<Suc n]
          = (t, ?t2) # map (\<lambda>k. (min (?t2 + int k * d) tmax, min (?t2 + (int k + 1) * d) tmax)) [0..<n]"
  proof -
    have "[0..<Suc n] = 0 # map Suc [0..<n]" by (simp add: upt_conv_Cons map_Suc_upt del: upt_Suc)
    then have "map (\<lambda>k. (min (t + int k * d) tmax, min (t + (int k + 1) * d) tmax)) [0..<Suc n]
                 = (min (t + int 0 * d) tmax, min (t + (int 0 + 1) * d) tmax)
                   # map (\<lambda>k. (min (t + int (Suc k) * d) tmax, min (t + (int (Suc k) + 1) * d) tmax)) [0..<n]"
      by (simp add: comp_def del: upt_Suc)
    also have "\<dots> = (t, ?t2) # map (\<lambda>k. (min (?t2 + int k * d) tmax, min (?t2 + (int k + 1) * d) tmax)) [0..<n]"
      unfolding first using shift shift2 by (simp add: algebra_simps)
    finally show ?thesis .
  qed
  then show ?case unfolding step by (simp add: Suc.IH [OF b])
qed

lemma days_before_year_mono:
  assumes "1 \<le> y"
  shows "0 \<le> days_before_year y \<and> days_before_year y \<le> days_before_year (y + 1)"
proof -
  have z: "0 \<le> y - 1" using assms by simp
  have a: "(y - 1) div 100 \<le> (y - 1) div 4" using z by (intro zdiv_mono2) simp_all
  have b: "0 \<le> (y - 1) div 400" using z by simp
  have c: "(y - 1) div 4 \<le> y div 4" by (intro zdiv_mono1) simp_all
  have d: "(y - 1) div 400 \<le> y div 400" by (intro zdiv_mono1) simp_all
  have "y div 100 \<le> (y - 1 + 100) div 100" by (intro zdiv_mono1) simp_all
  then have e: "y div 100 \<le> (y - 1) div 100 + 1" by simp
  have f: "0 \<le> (y - 1) * 365" using z by simp
  show ?thesis unfolding days_before_year_def using a b c d e f by simp
qed

lemma year_periods_closed:
  assumes "1 \<le> y" and "y \<le> 9998" and "0 \<le> res" and "res \<le> 999999999"
    and "(days_before_year (y + 1) + res) * usec_per_day \<le> datetime_max"
  shows "year_periods res y =
           (None, map (\<lambda>k. (min (days_before_year y * usec_per_day + int k * (res * usec_per_day))
                                 (days_before_year (y + 1) * usec_per_day),
                            min (days_before_year y * usec_per_day + (int k + 1) * (res * usec_per_day))
                                 (days_before_year (y + 1) * usec_per_day)))
                    [0..<num_periods_per_year res])"
proof -
  have u: "0 < usec_per_day" by (simp add: usec_per_day_def)
  have j1: "datetime_jan1 y = Inr (days_before_year y * usec_per_day)"
    using assms(1,2) by (simp add: datetime_jan1_def)
  have j2: "datetime_jan1 (y + 1) = Inr (days_before_year (y + 1) * usec_per_day)"
    using assms(1,2) by (simp add: datetime_jan1_def)
  have td: "timedelta_days res = Inr (res * usec_per_day)"
    using assms(3,4) by (simp add: timedelta_days_def)
  have a: "0 \<le> res * usec_per_day" using assms(3) u by simp
  have b: "0 \<le> days_before_year y * usec_per_day"
    using days_before_year_mono [OF assms(1)] u by simp
  have c: "days_before_year y * usec_per_day \<le> days_before_year (y + 1) * usec_per_day"
    using days_before_year_mono [OF assms(1)] u by simp
  have d: "days_before_year (y + 1) * usec_per_day + res * usec_per_day \<le> datetime_max"
    using assms(5) by (simp add: algebra_simps)
  show ?thesis
    unfolding year_periods_def
    by (simp add: j1 j2 td for_periods_record_closed [OF a b c d])
qed

lemma year_periods_last_end:
  assumes "1 \<le> y" and "y \<le> 9998" and "0 < res" and "res \<le> 999999999"
    and "(days_before_year (y + 1) + res) * usec_per_day \<le> datetime_max"
  shows "snd (last (snd (year_periods res y)))
           = min ((days_before_year y + int (num_periods_per_year res) * res) * usec_per_day)
                 (days_before_year (y + 1) * usec_per_day)"
proof -
  have "0 < 365 / (of_int res :: rat)" using assms(3) by simp
  then have "0 < \<lceil>365 / (of_int res :: rat)\<rceil>" by (simp add: less_ceiling_iff)
  then have n: "0 < num_periods_per_year res" by (simp add: num_periods_per_year_def)
  then obtain m where m: "num_periods_per_year res = Suc m" by (cases "num_periods_per_year res") auto
  have r: "0 \<le> res" using assms(3) by simp
  show ?thesis
    unfolding year_periods_closed [OF assms(1,2) r assms(4,5)] m
    by (simp add: algebra_simps)
qed

text \<open>
  Claim C2 fails in leap years for a resolution that divides 365. With periods of five
  days the loop steps through 73 periods of 2004, the last one from 12-26 to 12-31, and
  stops a day short of 2005-01-01; with periods of 365 days the one period of 2004 ends on
  12-31 as well. A provider that covers exactly the last day of 2004 is never asked for an
  image. (For the non-leap year 2001 and eight days, the 46 periods do end at the next
  January 1: see \<open>periods_2001\<close> and \<open>year_periods_2001_end\<close>; the general form of the
  periods is \<open>year_periods_closed\<close>.)
\<close>

theorem year_periods_leap_year_gap:
  "fst (year_periods 5 2004) = None
   \<and> length (snd (year_periods 5 2004)) = 73
   \<and> last (snd (year_periods 5 2004))
       = ((days_before_year 2005 - 6) * usec_per_day, dec31_2004)
   \<and> dec31_2004 < jan1_2005
   \<and> datetime_jan1 2005 = Inr jan1_2005
   \<and> year_periods 365 2004 = (None, [(days_before_year 2004 * usec_per_day, dec31_2004)])
   \<and> fst (update pentad_cube (mock_provider (config pentad_cube) dec31_2004 jan1_2005)
            (initial_world 0)) = None
   \<and> compute_calls (calls (snd (update pentad_cube
                                  (mock_provider (config pentad_cube) dec31_2004 jan1_2005)
                                  (initial_world 0)))) = []"
  by code_simp

lemma year_periods_2001_end:
  "fst (year_periods 8 2001) = None
   \<and> fst (hd (snd (year_periods 8 2001))) = jan_2001 1
   \<and> snd (last (snd (year_periods 8 2001))) = days_before_year 2002 * usec_per_day"
  by code_simp

end
